theory Spec2Isabelle
  imports Main "HOL-Library.AList"
begin

section \<open>The MCP demonstration client (src/mcp/mcp_client.py)\<close>

text \<open>
  The client is a thin script around a library session object. The model keeps the
  script's control flow and replaces the library by two things: a record of what the
  server side answers to each operation (\<open>server\<close>), and the list of events the
  script produces, in order (every \<open>print\<close> and every operation it starts).
  Each flow starts every operation at most once, so one answer per operation is as
  general as a server whose answers depend on what happened before.
\<close>

subsection \<open>Values, exceptions, events\<close>

text \<open>
  JSON values as Python holds them after decoding. A dict is the list of its items in
  insertion order; \<open>JFloat m e\<close> is the float written \<open>m\<close> times ten to the minus \<open>e\<close>,
  so the literal 3.14 is \<open>JFloat 314 2\<close>. Strings are byte strings.
\<close>

datatype json =
    JNull
  | JBool bool
  | JInt int
  | JFloat int nat
  | JStr string
  | JArr "json list"
  | JObj "(string \<times> json) list"

type_synonym pydict = "(string \<times> json) list"

text \<open>
  What can be raised. The handlers of the script tell three classes apart:
  \<open>ConnectionError\<close> (and its subclasses), every other subclass of \<open>Exception\<close>, and
  what derives from \<open>BaseException\<close> only (KeyboardInterrupt, SystemExit, task
  cancellation), which \<open>except Exception\<close> does not catch. The string is \<open>str(e)\<close>.
\<close>

datatype exn =
    ConnectionError string
  | OtherException string
  | BaseExceptionOnly string

fun str_exn :: "exn \<Rightarrow> string" where
  "str_exn (ConnectionError s) = s"
| "str_exn (OtherException s) = s"
| "str_exn (BaseExceptionOnly s) = s"

fun is_Exception :: "exn \<Rightarrow> bool" where
  "is_Exception (ConnectionError s) = True"
| "is_Exception (OtherException s) = True"
| "is_Exception (BaseExceptionOnly s) = False"

fun is_ConnectionError :: "exn \<Rightarrow> bool" where
  "is_ConnectionError (ConnectionError s) = True"
| "is_ConnectionError (OtherException s) = False"
| "is_ConnectionError (BaseExceptionOnly s) = False"

fun type_name :: "json \<Rightarrow> string" where
  "type_name JNull = ''NoneType''"
| "type_name (JBool b) = ''bool''"
| "type_name (JInt i) = ''int''"
| "type_name (JFloat m e) = ''float''"
| "type_name (JStr s) = ''str''"
| "type_name (JArr xs) = ''list''"
| "type_name (JObj kvs) = ''dict''"

text \<open>The AttributeError of \<open>v.attr\<close> on a value that has no such attribute.\<close>

definition attribute_error :: "json \<Rightarrow> string \<Rightarrow> exn" where
  "attribute_error v attr =
     OtherException ([CHR 0x27] @ type_name v @ [CHR 0x27] @ '' object has no attribute ''
                     @ [CHR 0x27] @ attr @ [CHR 0x27])"

record prompt =
  p_name :: string
  p_description :: "string option"

record resource =
  r_uri :: string
  r_name :: string

text \<open>A listed tool; \<open>t_inputSchema\<close> is \<open>getattr(tool, "inputSchema", None)\<close>.\<close>

record tool =
  t_name :: string
  t_description :: "string option"
  t_inputSchema :: "pydict option"

text \<open>
  The answers of the server side: entering the transport and the session, and the five
  session operations. \<open>on_call_tool\<close> gives the printed form of \<open>result.content\<close>.
\<close>

record server =
  on_transport_enter :: "exn + unit"
  on_session_enter :: "exn + unit"
  on_initialize :: "exn + unit"
  on_list_prompts :: "exn + prompt list"
  on_list_resources :: "exn + resource list"
  on_list_tools :: "exn + tool list"
  on_call_tool :: "string \<Rightarrow> pydict \<Rightarrow> exn + string"

text \<open>
  What the script does, as seen from outside. \<open>StdioClient\<close> is the launch of the
  subprocess (command and arguments), \<open>ClientSession b\<close> the opening of a session,
  \<open>b\<close> telling whether the sampling callback is registered. An operation is recorded
  when it is started, whether or not it then raises.
\<close>

datatype event =
    Print string
  | StdioClient string "string list"
  | StreamableHttpClient string
  | ClientSession bool
  | Initialize
  | ListPrompts
  | ListResources
  | ListTools
  | CallTool string pydict

subsection \<open>Sequencing, exceptions and handlers\<close>

text \<open>A piece of the script: the events it produced, and its result or the exception it raised.\<close>

type_synonym 'a io = "event list \<times> (exn + 'a)"

definition io_return :: "'a \<Rightarrow> 'a io" where
  "io_return x = ([], Inr x)"

definition io_lift :: "exn + 'a \<Rightarrow> 'a io" where
  "io_lift r = ([], r)"

definition perform :: "event \<Rightarrow> exn + 'a \<Rightarrow> 'a io" where
  "perform ev r = ([ev], r)"

definition print :: "string \<Rightarrow> unit io" where
  "print s = ([Print s], Inr ())"

definition io_bind :: "'a io \<Rightarrow> ('a \<Rightarrow> 'b io) \<Rightarrow> 'b io" where
  "io_bind m f =
     (case snd m of
        Inl e \<Rightarrow> (fst m, Inl e)
      | Inr x \<Rightarrow> (fst m @ fst (f x), snd (f x)))"

definition io_then :: "unit io \<Rightarrow> 'a io \<Rightarrow> 'a io" where
  "io_then m n = io_bind m (\<lambda>u. n)"

definition io_block :: "unit io list \<Rightarrow> unit io" where
  "io_block steps = foldr io_then steps (io_return ())"

definition for_each :: "'a list \<Rightarrow> ('a \<Rightarrow> unit io) \<Rightarrow> unit io" where
  "for_each xs body = io_block (map body xs)"

text \<open>\<open>try: m except Exception as e: h e\<close>\<close>

definition try_except_Exception :: "'a io \<Rightarrow> (exn \<Rightarrow> 'a io) \<Rightarrow> 'a io" where
  "try_except_Exception m h =
     (case snd m of
        Inl e \<Rightarrow> (if is_Exception e then (fst m @ fst (h e), snd (h e)) else (fst m, Inl e))
      | Inr x \<Rightarrow> (fst m, Inr x))"

text \<open>\<open>try: m except ConnectionError as e: h1 e except Exception as e: h2 e\<close>\<close>

definition try_except_ConnectionError_Exception ::
    "'a io \<Rightarrow> (exn \<Rightarrow> 'a io) \<Rightarrow> (exn \<Rightarrow> 'a io) \<Rightarrow> 'a io" where
  "try_except_ConnectionError_Exception m h1 h2 =
     (case snd m of
        Inl e \<Rightarrow>
          (if is_ConnectionError e then (fst m @ fst (h1 e), snd (h1 e))
           else if is_Exception e then (fst m @ fst (h2 e), snd (h2 e))
           else (fst m, Inl e))
      | Inr x \<Rightarrow> (fst m, Inr x))"

text \<open>
  \<open>async with cm as x: body\<close>: entering is the event \<open>ev\<close> and may raise; leaving
  releases the resource and neither raises nor swallows an exception of the body.
\<close>

definition async_with :: "event \<Rightarrow> exn + unit \<Rightarrow> 'a io \<Rightarrow> 'a io" where
  "async_with ev enter body = io_bind (perform ev enter) (\<lambda>u. body)"

subsection \<open>Strings\<close>

text \<open>\<open>str(n)\<close> for an int.\<close>

fun str_nat :: "nat \<Rightarrow> string" where
  "str_nat n =
     (if n < 10 then [char_of (48 + n)]
      else str_nat (n div 10) @ [char_of (48 + n mod 10)])"

declare str_nat.simps [simp del]

definition str_int :: "int \<Rightarrow> string" where
  "str_int i = (if i < 0 then CHR ''-'' # str_nat (nat (- i)) else str_nat (nat i))"

text \<open>How an f-string shows an optional string.\<close>

fun str_opt :: "string option \<Rightarrow> string" where
  "str_opt None = ''None''"
| "str_opt (Some s) = s"

text \<open>
  \<open>s.lower()\<close> on the ASCII letters. No character outside ASCII lowers to one of
  \<open>e\<close>, \<open>c\<close>, \<open>h\<close>, \<open>o\<close>, so the test for "echo" below sees what Python sees.
\<close>

definition lower_char :: "char \<Rightarrow> char" where
  "lower_char c =
     (if 65 \<le> (of_char c :: nat) \<and> (of_char c :: nat) \<le> 90
      then char_of ((of_char c :: nat) + 32) else c)"

definition lower :: "string \<Rightarrow> string" where
  "lower s = map lower_char s"

text \<open>\<open>p in s\<close> for strings: \<open>p\<close> occurs in \<open>s\<close> as a contiguous piece.\<close>

fun contains :: "string \<Rightarrow> string \<Rightarrow> bool" where
  "contains [] p = (p = [])"
| "contains (c # cs) p = (if take (length p) (c # cs) = p then True else contains cs p)"

text \<open>Truth value of an \<open>Optional[str]\<close>: neither \<open>None\<close> nor the empty string.\<close>

fun truthy :: "string option \<Rightarrow> bool" where
  "truthy None = False"
| "truthy (Some s) = (s \<noteq> [])"

subsection \<open>The sampling callback (lines 18-30)\<close>

record text_content =
  tc_type :: string
  tc_text :: string

record create_message_result =
  role :: string
  content :: text_content
  model :: string
  stopReason :: string

definition handle_sampling_message :: "'params \<Rightarrow> create_message_result" where
  "handle_sampling_message message =
     \<lparr> role = ''assistant'',
       content = \<lparr> tc_type = ''text'', tc_text = ''Hello from MCP client!'' \<rparr>,
       model = ''gpt-3.5-turbo'',
       stopReason = ''endTurn'' \<rparr>"

subsection \<open>The stdio flow (lines 33-140)\<close>

definition docker_args :: "string \<Rightarrow> string \<Rightarrow> int \<Rightarrow> string list" where
  "docker_args docker_image host port =
     [''run'', ''-i'', ''--rm'', docker_image, ''STDIO'',
      ''TCP:'' @ host @ '':'' @ str_int port]"

text \<open>Lines 70-80.\<close>

definition list_prompts_step :: "server \<Rightarrow> unit io" where
  "list_prompts_step srv =
     io_then (print (CHR 0x0A # ''--- Listing Prompts ---''))
       (try_except_Exception
          (io_bind (perform ListPrompts (on_list_prompts srv)) (\<lambda>prompts.
             if prompts \<noteq> [] then
               for_each prompts (\<lambda>p.
                 print (''Prompt: '' @ p_name p @ '' - '' @ str_opt (p_description p)))
             else print ''No prompts available''))
          (\<lambda>e. print (''Error listing prompts: '' @ str_exn e)))"

text \<open>Lines 82-92.\<close>

definition list_resources_step :: "server \<Rightarrow> unit io" where
  "list_resources_step srv =
     io_then (print (CHR 0x0A # ''--- Listing Resources ---''))
       (try_except_Exception
          (io_bind (perform ListResources (on_list_resources srv)) (\<lambda>resources.
             if resources \<noteq> [] then
               for_each resources (\<lambda>r.
                 print (''Resource: '' @ r_uri r @ '' - '' @ r_name r))
             else print ''No resources available''))
          (\<lambda>e. print (''Error listing resources: '' @ str_exn e)))"

text \<open>Lines 94-105; the value is the variable \<open>tools\<close>, still \<open>None\<close> when the listing raised.\<close>

definition list_tools_step :: "server \<Rightarrow> tool list option io" where
  "list_tools_step srv =
     io_then (print (CHR 0x0A # ''--- Listing Tools ---''))
       (try_except_Exception
          (io_bind (perform ListTools (on_list_tools srv)) (\<lambda>tools.
             io_then
               (if tools \<noteq> [] then
                  for_each tools (\<lambda>t.
                    print (''Tool: '' @ t_name t @ '' - '' @ str_opt (t_description t)))
                else print ''No tools available'')
               (io_return (Some tools))))
          (\<lambda>e. io_then (print (''Error listing tools: '' @ str_exn e)) (io_return None)))"

text \<open>Lines 110-113.\<close>

definition select_tool_name :: "string option \<Rightarrow> tool list option \<Rightarrow> string option" where
  "select_tool_name tool_name tools =
     (if \<not> truthy tool_name then
        (case tools of
           None \<Rightarrow> tool_name
         | Some [] \<Rightarrow> tool_name
         | Some (t # ts) \<Rightarrow> Some (t_name t))
      else tool_name)"

text \<open>
  Lines 125-131: the loop over \<open>schema["properties"].items()\<close>, updating \<open>tool_args\<close>.
  \<open>prop_def.get\<close> exists on a dict only.
\<close>

fun synthesize_args :: "pydict \<Rightarrow> pydict \<Rightarrow> exn + pydict" where
  "synthesize_args [] tool_args = Inr tool_args"
| "synthesize_args ((prop_name, prop_def) # rest) tool_args =
     (case prop_def of
        JObj d \<Rightarrow>
          (if map_of d ''type'' = Some (JStr ''string'') then
             synthesize_args rest (AList.update prop_name (JStr ''example'') tool_args)
           else if map_of d ''type'' = Some (JStr ''integer'') then
             synthesize_args rest (AList.update prop_name (JInt 42) tool_args)
           else if map_of d ''type'' = Some (JStr ''number'') then
             synthesize_args rest (AList.update prop_name (JFloat 314 2) tool_args)
           else synthesize_args rest tool_args)
      | _ \<Rightarrow> Inl (attribute_error prop_def ''get''))"

text \<open>Lines 119-131.\<close>

definition build_tool_args :: "tool list option \<Rightarrow> string \<Rightarrow> exn + pydict" where
  "build_tool_args tools selected_tool_name =
     (case tools of
        None \<Rightarrow> Inr []
      | Some ts \<Rightarrow>
          if ts = [] then Inr []
          else
            (case find (\<lambda>t. t_name t = selected_tool_name) ts of
               None \<Rightarrow> Inr []
             | Some selected \<Rightarrow>
                 (case t_inputSchema selected of
                    None \<Rightarrow> Inr []
                  | Some schema \<Rightarrow>
                      if schema = [] then Inr []
                      else
                        (case map_of schema ''properties'' of
                           None \<Rightarrow> Inr []
                         | Some props \<Rightarrow>
                             (case props of
                                JObj items \<Rightarrow> synthesize_args items []
                              | _ \<Rightarrow> Inl (attribute_error props ''items''))))))"

text \<open>Lines 110-137.\<close>

definition call_selected_tool :: "server \<Rightarrow> string option \<Rightarrow> tool list option \<Rightarrow> unit io" where
  "call_selected_tool srv tool_name tools =
     (case select_tool_name tool_name tools of
        None \<Rightarrow> io_return ()
      | Some selected_tool_name \<Rightarrow>
          if selected_tool_name = [] then io_return ()
          else
            io_then (print (CHR 0x0A # ''--- Calling Tool: '' @ selected_tool_name @ '' ---''))
              (io_bind (io_lift (build_tool_args tools selected_tool_name)) (\<lambda>tool_args.
                 try_except_Exception
                   (io_bind
                      (perform (CallTool selected_tool_name tool_args)
                         (on_call_tool srv selected_tool_name tool_args))
                      (\<lambda>result. print (''Tool result: '' @ result)))
                   (\<lambda>e. print (''Error calling tool '' @ [CHR 0x27] @ selected_tool_name
                                 @ [CHR 0x27] @ '': '' @ str_exn e)))))"

text \<open>Lines 65-137: the body of the session.\<close>

definition stdio_session :: "server \<Rightarrow> string option \<Rightarrow> bool \<Rightarrow> unit io" where
  "stdio_session srv tool_name list_only =
     io_then
       (io_block
          [print ''Initializing connection...'',
           perform Initialize (on_initialize srv),
           print ([CHR 0xE2, CHR 0x9C, CHR 0x93] @ '' Connection initialized''),
           list_prompts_step srv,
           list_resources_step srv])
       (io_bind (list_tools_step srv) (\<lambda>tools.
          if list_only then io_return ()
          else call_selected_tool srv tool_name tools))"

definition demo_stdio_client ::
    "server \<Rightarrow> string \<Rightarrow> int \<Rightarrow> string \<Rightarrow> string option \<Rightarrow> bool \<Rightarrow> unit io" where
  "demo_stdio_client srv host port docker_image tool_name list_only =
     io_then (print ''=== MCP Stdio Client Demo ==='')
       (try_except_Exception
          (async_with (StdioClient ''docker'' (docker_args docker_image host port))
             (on_transport_enter srv)
             (async_with (ClientSession True) (on_session_enter srv)
                (stdio_session srv tool_name list_only)))
          (\<lambda>e. print (''Stdio client error: '' @ str_exn e)))"

subsection \<open>The HTTP flow (lines 143-209)\<close>

text \<open>Lines 162-186.\<close>

definition http_tools_step :: "server \<Rightarrow> unit io" where
  "http_tools_step srv =
     io_then (print (CHR 0x0A # ''--- Listing Tools (HTTP) ---''))
       (try_except_Exception
          (io_bind (perform ListTools (on_list_tools srv)) (\<lambda>tools.
             case tools of
               [] \<Rightarrow> print ''No tools available''
             | first # others \<Rightarrow>
                 io_then
                   (for_each tools (\<lambda>t.
                      print (''Tool: '' @ t_name t @ '' - '' @ str_opt (t_description t))))
                   (io_then
                      (print (CHR 0x0A # ''--- Calling Tool via HTTP: '' @ t_name first @ '' ---''))
                      (if contains (lower (t_name first)) ''echo'' then
                         io_bind
                           (perform
                              (CallTool (t_name first) [(''message'', JStr ''Hello via HTTP!'')])
                              (on_call_tool srv (t_name first)
                                 [(''message'', JStr ''Hello via HTTP!'')]))
                           (\<lambda>result. print (''Tool result: '' @ result))
                       else
                         io_bind
                           (perform (CallTool (t_name first) [])
                              (on_call_tool srv (t_name first) []))
                           (\<lambda>result. print (''Tool result: '' @ result))))))
          (\<lambda>e. print (''Error with HTTP operations: '' @ str_exn e)))"

text \<open>Lines 188-198.\<close>

definition http_resources_step :: "server \<Rightarrow> unit io" where
  "http_resources_step srv =
     io_then (print (CHR 0x0A # ''--- Listing Resources (HTTP) ---''))
       (try_except_Exception
          (io_bind (perform ListResources (on_list_resources srv)) (\<lambda>resources.
             if resources \<noteq> [] then
               for_each resources (\<lambda>r.
                 print (''Resource: '' @ r_uri r @ '' - '' @ r_name r))
             else print ''No resources available''))
          (\<lambda>e. print (''Error listing resources via HTTP: '' @ str_exn e)))"

text \<open>Lines 149-198: what the \<open>try\<close> of the HTTP flow encloses.\<close>

definition http_try_body :: "server \<Rightarrow> string \<Rightarrow> unit io" where
  "http_try_body srv server_url =
     async_with (StreamableHttpClient server_url) (on_transport_enter srv)
       (async_with (ClientSession False) (on_session_enter srv)
          (io_block
             [print ''Initializing HTTP connection...'',
              perform Initialize (on_initialize srv),
              print ([CHR 0xE2, CHR 0x9C, CHR 0x93] @ '' HTTP Connection initialized''),
              http_tools_step srv,
              http_resources_step srv]))"

definition how_to_start_server :: "unit io list" where
  "how_to_start_server =
     [print ''To start the server in HTTP mode, run:'',
      print ''  python mcp/mcp_server.py --transport streamable-http --port 8000'']"

text \<open>Lines 200-204.\<close>

definition on_ConnectionError :: "string \<Rightarrow> exn \<Rightarrow> unit io" where
  "on_ConnectionError server_url e =
     io_block
       ([print (''HTTP connection failed: '' @ str_exn e),
         print (''Make sure an MCP server is running at '' @ server_url)]
        @ how_to_start_server)"

text \<open>Lines 205-209.\<close>

definition on_Exception :: "string \<Rightarrow> exn \<Rightarrow> unit io" where
  "on_Exception server_url e =
     io_block
       ([print (''HTTP client error: '' @ str_exn e),
         print (''This might be because no server is running at '' @ server_url)]
        @ how_to_start_server)"

definition demo_http_client :: "server \<Rightarrow> string \<Rightarrow> unit io" where
  "demo_http_client srv server_url =
     io_then
       (io_block
          [print (CHR 0x0A # ''=== MCP HTTP Client Demo ===''),
           print (''Attempting to connect to: '' @ server_url)])
       (try_except_ConnectionError_Exception
          (http_try_body srv server_url)
          (on_ConnectionError server_url)
          (on_Exception server_url))"

subsection \<open>The entry point (lines 212-234)\<close>

text \<open>The namespace \<open>parser.parse_args()\<close> returns.\<close>

record args =
  args_host :: string
  args_port :: int
  args_docker_image :: string
  args_list_tools :: bool
  args_tool :: "string option"
  args_http_url :: "string option"

definition main :: "server \<Rightarrow> args \<Rightarrow> unit io" where
  "main srv a =
     (if truthy (args_http_url a) then demo_http_client srv (the (args_http_url a))
      else
        demo_stdio_client srv (args_host a) (args_port a) (args_docker_image a)
          (args_tool a) (args_list_tools a))"

subsection \<open>What is observed of a run\<close>

text \<open>The tool calls a run started, in order, each with its name and argument mapping.\<close>

fun call_of :: "event \<Rightarrow> (string \<times> pydict) list" where
  "call_of (CallTool n a) = [(n, a)]"
| "call_of _ = []"

definition calls_of :: "event list \<Rightarrow> (string \<times> pydict) list" where
  "calls_of tr = concat (map call_of tr)"

text \<open>The subprocesses a run launched.\<close>

fun launch_of :: "event \<Rightarrow> (string \<times> string list) list" where
  "launch_of (StdioClient c a) = [(c, a)]"
| "launch_of _ = []"

definition launches_of :: "event list \<Rightarrow> (string \<times> string list) list" where
  "launches_of tr = concat (map launch_of tr)"

text \<open>The HTTP endpoints a run connected to.\<close>

fun connect_of :: "event \<Rightarrow> string list" where
  "connect_of (StreamableHttpClient u) = [u]"
| "connect_of _ = []"

definition connects_of :: "event list \<Rightarrow> string list" where
  "connects_of tr = concat (map connect_of tr)"

text \<open>The session operations a run started, in order.\<close>

fun is_operation :: "event \<Rightarrow> bool" where
  "is_operation Initialize = True"
| "is_operation ListPrompts = True"
| "is_operation ListResources = True"
| "is_operation ListTools = True"
| "is_operation (CallTool n a) = True"
| "is_operation _ = False"

definition operations_of :: "event list \<Rightarrow> event list" where
  "operations_of tr = filter is_operation tr"

text \<open>
  The transport and the session open and the handshake succeeds: the flow reaches its
  listings.
\<close>

definition established :: "server \<Rightarrow> bool" where
  "established srv =
     (on_transport_enter srv = Inr () \<and> on_session_enter srv = Inr () \<and> on_initialize srv = Inr ())"

text \<open>An answer that is a result or an \<open>Exception\<close>: what \<open>except Exception\<close> handles.\<close>

fun catchable :: "exn + 'a \<Rightarrow> bool" where
  "catchable (Inl e) = is_Exception e"
| "catchable (Inr x) = True"

text \<open>The variable \<open>tools\<close> after a listing that raised at most an \<open>Exception\<close>.\<close>

fun listed :: "exn + 'a list \<Rightarrow> 'a list option" where
  "listed (Inl e) = None"
| "listed (Inr xs) = Some xs"

text \<open>\<open>isinstance(v, dict)\<close>\<close>

fun is_dict :: "json \<Rightarrow> bool" where
  "is_dict (JObj kvs) = True"
| "is_dict _ = False"

text \<open>The value lines 126-131 store for one property definition, if any.\<close>

fun example_value :: "json \<Rightarrow> json option" where
  "example_value (JObj d) =
     (if map_of d ''type'' = Some (JStr ''string'') then Some (JStr ''example'')
      else if map_of d ''type'' = Some (JStr ''integer'') then Some (JInt 42)
      else if map_of d ''type'' = Some (JStr ''number'') then Some (JFloat 314 2)
      else None)"
| "example_value _ = None"

text \<open>The first events of the stdio flow when the session is established.\<close>

definition stdio_prologue :: "string \<Rightarrow> int \<Rightarrow> string \<Rightarrow> event list" where
  "stdio_prologue host port docker_image =
     [Print ''=== MCP Stdio Client Demo ==='',
      StdioClient ''docker'' (docker_args docker_image host port),
      ClientSession True,
      Print ''Initializing connection...'',
      Initialize,
      Print ([CHR 0xE2, CHR 0x9C, CHR 0x93] @ '' Connection initialized'')]"

subsection \<open>Example inputs\<close>

text \<open>The properties of a schema: one of each recognised type and three that are not.\<close>

definition props0 :: pydict where
  "props0 =
     [(''a'', JObj [(''type'', JStr ''string'')]),
      (''b'', JObj [(''type'', JStr ''integer''), (''minimum'', JInt 0)]),
      (''c'', JObj [(''type'', JStr ''number'')]),
      (''d'', JObj [(''type'', JStr ''boolean'')]),
      (''e'', JObj [(''description'', JStr ''anything'')]),
      (''f'', JObj [(''type'', JArr [JStr ''string'', JStr ''null''])])]"

text \<open>Two listed tools: the first declares the properties above, the second no schema.\<close>

definition tool_a :: tool where
  "tool_a =
     \<lparr> t_name = ''a'', t_description = Some ''first tool'',
       t_inputSchema = Some [(''type'', JStr ''object''), (''properties'', JObj props0)] \<rparr>"

definition tool_b :: tool where
  "tool_b = \<lparr> t_name = ''b'', t_description = None, t_inputSchema = None \<rparr>"

definition tools_ab :: "tool list" where
  "tools_ab = [tool_a, tool_b]"

text \<open>A server where everything succeeds; then the same with one answer changed.\<close>

definition demo_server :: server where
  "demo_server =
     \<lparr> on_transport_enter = Inr (),
       on_session_enter = Inr (),
       on_initialize = Inr (),
       on_list_prompts = Inr [],
       on_list_resources = Inr [],
       on_list_tools = Inr tools_ab,
       on_call_tool = (\<lambda>n a. Inr ''[ok]'') \<rparr>"

definition failing_tools_server :: server where
  "failing_tools_server = demo_server \<lparr> on_list_tools := Inl (OtherException ''Method not found'') \<rparr>"

definition failing_resources_server :: server where
  "failing_resources_server =
     demo_server \<lparr> on_list_resources := Inl (OtherException ''Method not found'') \<rparr>"

definition no_tools_server :: server where
  "no_tools_server = demo_server \<lparr> on_list_tools := Inr [] \<rparr>"

text \<open>A tool whose schema has a boolean property schema, as JSON Schema allows.\<close>

definition boolean_schema_server :: server where
  "boolean_schema_server =
     demo_server \<lparr> on_list_tools :=
       Inr [\<lparr> t_name = ''a'', t_description = None,
              t_inputSchema =
                Some [(''type'', JStr ''object''),
                      (''properties'', JObj [(''x'', JBool True)])] \<rparr>] \<rparr>"

text \<open>
  Servers whose first tool is named "EchoTool" and "uppercase", and one that refuses
  the connection.
\<close>

definition echo_tool :: tool where
  "echo_tool =
     \<lparr> t_name = ''EchoTool'', t_description = Some ''echoes its message'',
       t_inputSchema = None \<rparr>"

definition uppercase_tool :: tool where
  "uppercase_tool = \<lparr> t_name = ''uppercase'', t_description = None, t_inputSchema = None \<rparr>"

definition echo_server :: server where
  "echo_server = demo_server \<lparr> on_list_tools := Inr [echo_tool, uppercase_tool] \<rparr>"

definition uppercase_server :: server where
  "uppercase_server = demo_server \<lparr> on_list_tools := Inr [uppercase_tool, echo_tool] \<rparr>"

definition refusing_server :: server where
  "refusing_server =
     demo_server \<lparr> on_transport_enter := Inl (ConnectionError ''All connection attempts failed'') \<rparr>"

text \<open>
  Parsed options: \<open>--http-url\<close> together with the stdio-only \<open>--list-tools\<close> and
  \<open>--tool a\<close>; then the same with the empty string as the URL.
\<close>

definition http_args :: args where
  "http_args =
     \<lparr> args_host = ''host.docker.internal'', args_port = 8811,
       args_docker_image = ''alpine/socat'', args_list_tools = True,
       args_tool = Some ''a'', args_http_url = Some ''http://localhost:8000/mcp'' \<rparr>"

definition empty_url_args :: args where
  "empty_url_args = http_args \<lparr> args_http_url := Some [] \<rparr>"

subsection \<open>The spec's tool selection\<close>

text \<open>
  The spec's sentence (section 4.2): "uses an explicitly named tool if provided and
  present in the listed set; otherwise falls back to the first tool in the listed set;
  if no tools exist, no call is made". Written down as it reads, to be compared with
  \<open>select_tool_name\<close>.
\<close>

definition spec_tool_selection :: "string option \<Rightarrow> tool list \<Rightarrow> string option" where
  "spec_tool_selection tool_name ts =
     (case ts of
        [] \<Rightarrow> None
      | t # rest \<Rightarrow>
          (case tool_name of
             None \<Rightarrow> Some (t_name t)
           | Some n \<Rightarrow> if n \<in> set (map t_name ts) then Some n else Some (t_name t)))"

section \<open>Properties\<close>

subsection \<open>Sequencing and observation\<close>

lemma for_each_print: "for_each xs (\<lambda>x. print (f x)) = (map (\<lambda>x. Print (f x)) xs, Inr ())"
  by (induction xs) (simp_all add: for_each_def io_block_def io_then_def io_bind_def print_def io_return_def)

lemma calls_of_simps [simp]:
  "calls_of [] = []" "calls_of (e # tr) = call_of e @ calls_of tr"
  "calls_of (xs @ ys) = calls_of xs @ calls_of ys"
  "calls_of (map (\<lambda>x. Print (f x)) zs) = []"
  by (induction zs) (simp_all add: calls_of_def)

lemma launches_of_simps [simp]:
  "launches_of [] = []" "launches_of (e # tr) = launch_of e @ launches_of tr"
  "launches_of (xs @ ys) = launches_of xs @ launches_of ys"
  "launches_of (map (\<lambda>x. Print (f x)) zs) = []"
  by (induction zs) (simp_all add: launches_of_def)

lemma connects_of_simps [simp]:
  "connects_of [] = []" "connects_of (e # tr) = connect_of e @ connects_of tr"
  "connects_of (xs @ ys) = connects_of xs @ connects_of ys"
  "connects_of (map (\<lambda>x. Print (f x)) zs) = []"
  by (induction zs) (simp_all add: connects_of_def)

lemma operations_of_simps [simp]:
  "operations_of [] = []"
  "operations_of (e # tr) = (if is_operation e then e # operations_of tr else operations_of tr)"
  "operations_of (xs @ ys) = operations_of xs @ operations_of ys"
  "operations_of (map (\<lambda>x. Print (f x)) zs) = []"
  by (induction zs) (simp_all add: operations_of_def)

lemma io_bind_pair [simp]:
  "io_bind (tr, Inl e) f = (tr, Inl e)"
  "io_bind (tr, Inr x) f = (tr @ fst (f x), snd (f x))"
  by (simp_all add: io_bind_def)

lemma io_then_pair [simp]:
  "io_then (tr, Inl e) n = (tr, Inl e)"
  "io_then (tr, Inr u) n = (tr @ fst n, snd n)"
  by (simp_all add: io_then_def)

lemma try_except_Exception_pair [simp]:
  "try_except_Exception (tr, Inr x) h = (tr, Inr x)"
  "try_except_Exception (tr, Inl e) h =
     (if is_Exception e then (tr @ fst (h e), snd (h e)) else (tr, Inl e))"
  by (simp_all add: try_except_Exception_def)

lemma io_block_simps [simp]:
  "io_block [] = ([], Inr ())"
  "io_block (m # ms) = io_then m (io_block ms)"
  by (simp_all add: io_block_def io_return_def)

lemma list_prompts_step_eq:
  "list_prompts_step srv =
     (case on_list_prompts srv of
        Inr ps \<Rightarrow>
          (Print (CHR 0x0A # ''--- Listing Prompts ---'') # ListPrompts #
             (if ps \<noteq> [] then
                map (\<lambda>p. Print (''Prompt: '' @ p_name p @ '' - '' @ str_opt (p_description p))) ps
              else [Print ''No prompts available'']),
           Inr ())
      | Inl e \<Rightarrow>
          if is_Exception e then
            ([Print (CHR 0x0A # ''--- Listing Prompts ---''), ListPrompts,
              Print (''Error listing prompts: '' @ str_exn e)], Inr ())
          else ([Print (CHR 0x0A # ''--- Listing Prompts ---''), ListPrompts], Inl e))"
  by (simp add: list_prompts_step_def print_def perform_def for_each_print[unfolded print_def] split: sum.splits)


lemma fst_io_bind: "fst (io_bind m f) = fst m @ (case snd m of Inl e \<Rightarrow> [] | Inr x \<Rightarrow> fst (f x))"
  by (simp add: io_bind_def split: sum.splits)

lemma snd_io_bind: "snd (io_bind m f) = (case snd m of Inl e \<Rightarrow> Inl e | Inr x \<Rightarrow> snd (f x))"
  by (simp add: io_bind_def split: sum.splits)

lemma fst_io_then: "fst (io_then m n) = fst m @ (case snd m of Inl e \<Rightarrow> [] | Inr x \<Rightarrow> fst n)"
  by (simp add: io_then_def fst_io_bind)

lemma snd_io_then: "snd (io_then m n) = (case snd m of Inl e \<Rightarrow> Inl e | Inr x \<Rightarrow> snd n)"
  by (simp add: io_then_def snd_io_bind)

lemma fst_try_except_Exception:
  "fst (try_except_Exception m h) =
     fst m @ (case snd m of Inl e \<Rightarrow> if is_Exception e then fst (h e) else [] | Inr x \<Rightarrow> [])"
  by (simp add: try_except_Exception_def split: sum.splits)

lemma snd_try_except_Exception:
  "snd (try_except_Exception m h) =
     (case snd m of Inl e \<Rightarrow> if is_Exception e then snd (h e) else Inl e | Inr x \<Rightarrow> Inr x)"
  by (simp add: try_except_Exception_def split: sum.splits)

lemma list_resources_step_eq:
  "list_resources_step srv =
     (case on_list_resources srv of
        Inr rs \<Rightarrow>
          (Print (CHR 0x0A # ''--- Listing Resources ---'') # ListResources #
             (if rs \<noteq> [] then
                map (\<lambda>r. Print (''Resource: '' @ r_uri r @ '' - '' @ r_name r)) rs
              else [Print ''No resources available'']),
           Inr ())
      | Inl e \<Rightarrow>
          if is_Exception e then
            ([Print (CHR 0x0A # ''--- Listing Resources ---''), ListResources,
              Print (''Error listing resources: '' @ str_exn e)], Inr ())
          else ([Print (CHR 0x0A # ''--- Listing Resources ---''), ListResources], Inl e))"
  by (simp add: list_resources_step_def print_def perform_def for_each_print[unfolded print_def]
           split: sum.splits)

lemma list_tools_step_eq:
  "list_tools_step srv =
     (case on_list_tools srv of
        Inr ts \<Rightarrow>
          (Print (CHR 0x0A # ''--- Listing Tools ---'') # ListTools #
             (if ts \<noteq> [] then
                map (\<lambda>t. Print (''Tool: '' @ t_name t @ '' - '' @ str_opt (t_description t))) ts
              else [Print ''No tools available'']),
           Inr (Some ts))
      | Inl e \<Rightarrow>
          if is_Exception e then
            ([Print (CHR 0x0A # ''--- Listing Tools ---''), ListTools,
              Print (''Error listing tools: '' @ str_exn e)], Inr None)
          else ([Print (CHR 0x0A # ''--- Listing Tools ---''), ListTools], Inl e))"
  by (simp add: list_tools_step_def print_def perform_def io_return_def
                for_each_print[unfolded print_def] split: sum.splits)

lemma snd_list_prompts_step:
  "catchable (on_list_prompts srv) \<Longrightarrow> snd (list_prompts_step srv) = Inr ()"
  by (cases "on_list_prompts srv") (simp_all add: list_prompts_step_eq)

lemma snd_list_resources_step:
  "catchable (on_list_resources srv) \<Longrightarrow> snd (list_resources_step srv) = Inr ()"
  by (cases "on_list_resources srv") (simp_all add: list_resources_step_eq)

lemma snd_list_tools_step:
  "catchable (on_list_tools srv) \<Longrightarrow> snd (list_tools_step srv) = Inr (listed (on_list_tools srv))"
  by (cases "on_list_tools srv") (simp_all add: list_tools_step_eq)

lemma calls_of_list_prompts_step: "calls_of (fst (list_prompts_step srv)) = []"
  by (simp add: list_prompts_step_eq split: sum.splits)

lemma calls_of_list_resources_step: "calls_of (fst (list_resources_step srv)) = []"
  by (simp add: list_resources_step_eq split: sum.splits)

lemma calls_of_list_tools_step: "calls_of (fst (list_tools_step srv)) = []"
  by (simp add: list_tools_step_eq split: sum.splits)

lemma operations_of_list_prompts_step: "operations_of (fst (list_prompts_step srv)) = [ListPrompts]"
  by (simp add: list_prompts_step_eq split: sum.splits)

lemma operations_of_list_resources_step:
  "operations_of (fst (list_resources_step srv)) = [ListResources]"
  by (simp add: list_resources_step_eq split: sum.splits)

lemma operations_of_list_tools_step: "operations_of (fst (list_tools_step srv)) = [ListTools]"
  by (simp add: list_tools_step_eq split: sum.splits)

lemma stdio_session_listings:
  assumes "on_initialize srv = Inr ()"
      and "catchable (on_list_prompts srv)"
      and "catchable (on_list_resources srv)"
      and "catchable (on_list_tools srv)"
  shows "stdio_session srv tool_name list_only =
           ([Print ''Initializing connection...'', Initialize,
             Print ([CHR 0xE2, CHR 0x9C, CHR 0x93] @ '' Connection initialized'')]
            @ fst (list_prompts_step srv) @ fst (list_resources_step srv)
            @ fst (list_tools_step srv)
            @ (if list_only then []
               else fst (call_selected_tool srv tool_name (listed (on_list_tools srv)))),
            if list_only then Inr ()
            else snd (call_selected_tool srv tool_name (listed (on_list_tools srv))))"
  using assms
  by (simp add: stdio_session_def print_def perform_def io_return_def prod_eq_iff
        fst_io_then snd_io_then fst_io_bind snd_io_bind
        snd_list_prompts_step snd_list_resources_step snd_list_tools_step)

lemma demo_stdio_client_established:
  assumes "established srv"
      and "catchable (on_list_prompts srv)"
      and "catchable (on_list_resources srv)"
      and "catchable (on_list_tools srv)"
  shows "fst (demo_stdio_client srv host port docker_image tool_name list_only) =
           stdio_prologue host port docker_image
           @ fst (list_prompts_step srv) @ fst (list_resources_step srv)
           @ fst (list_tools_step srv)
           @ (if list_only then []
              else fst (try_except_Exception
                          (call_selected_tool srv tool_name (listed (on_list_tools srv)))
                          (\<lambda>e. print (''Stdio client error: '' @ str_exn e))))"
  using assms
  by (simp add: demo_stdio_client_def established_def stdio_prologue_def async_with_def
        perform_def print_def stdio_session_listings
        fst_try_except_Exception split: sum.splits)


lemma calls_of_call_selected_tool:
  "calls_of (fst (call_selected_tool srv tool_name tools)) =
     (case select_tool_name tool_name tools of
        None \<Rightarrow> []
      | Some n \<Rightarrow>
          if n = [] then []
          else (case build_tool_args tools n of Inl e \<Rightarrow> [] | Inr a \<Rightarrow> [(n, a)]))"
  by (simp add: call_selected_tool_def io_return_def io_lift_def print_def perform_def
        fst_io_then fst_io_bind snd_io_bind fst_try_except_Exception
        split: option.splits sum.splits)

lemma calls_of_stdio_handler:
  "calls_of (fst (try_except_Exception m (\<lambda>e. print (f e)))) = calls_of (fst m)"
  by (simp add: fst_try_except_Exception print_def split: sum.splits)

lemma calls_of_demo_stdio_client:
  assumes "established srv"
      and "catchable (on_list_prompts srv)"
      and "catchable (on_list_resources srv)"
      and "catchable (on_list_tools srv)"
  shows "calls_of (fst (demo_stdio_client srv host port docker_image tool_name False)) =
           (case select_tool_name tool_name (listed (on_list_tools srv)) of
              None \<Rightarrow> []
            | Some n \<Rightarrow>
                if n = [] then []
                else (case build_tool_args (listed (on_list_tools srv)) n of
                        Inl e \<Rightarrow> [] | Inr a \<Rightarrow> [(n, a)]))"
  by (simp add: demo_stdio_client_established[OF assms] stdio_prologue_def
        calls_of_list_prompts_step calls_of_list_resources_step calls_of_list_tools_step
        calls_of_stdio_handler calls_of_call_selected_tool)


subsection \<open>The argument synthesizer\<close>

lemma synthesize_args_step:
  "synthesize_args ((k, JObj d) # rest) acc =
     synthesize_args rest
       (case example_value (JObj d) of None \<Rightarrow> acc | Some v \<Rightarrow> AList.update k v acc)"
  by simp

lemma synthesize_args_total:
  "list_all is_dict (map snd props) \<Longrightarrow> \<exists>args. synthesize_args props acc = Inr args"
proof (induction props arbitrary: acc)
  case Nil
  then show ?case by simp
next
  case (Cons p props)
  obtain k pd where p: "p = (k, pd)" by (cases p)
  from Cons.prems p obtain d where d: "pd = JObj d" by (cases pd) simp_all
  from Cons.prems have "list_all is_dict (map snd props)" by simp
  from Cons.IH[OF this] show ?case
    unfolding p d synthesize_args_step by blast
qed

lemma synthesize_args_distinct:
  "synthesize_args props acc = Inr args \<Longrightarrow> distinct (map fst acc) \<Longrightarrow> distinct (map fst args)"
proof (induction props arbitrary: acc)
  case Nil
  then show ?case by simp
next
  case (Cons p props)
  obtain k pd where p: "p = (k, pd)" by (cases p)
  from Cons.prems(1) p obtain d where d: "pd = JObj d" by (cases pd) simp_all
  let ?acc' = "case example_value (JObj d) of None \<Rightarrow> acc | Some v \<Rightarrow> AList.update k v acc"
  from Cons.prems(1) have run: "synthesize_args props ?acc' = Inr args"
    unfolding p d synthesize_args_step .
  from Cons.prems(2) have "distinct (map fst ?acc')"
    by (simp add: distinct_update split: option.splits)
  from Cons.IH[OF run this] show ?case .
qed

lemma synthesize_args_map_of:
  "synthesize_args props acc = Inr args \<Longrightarrow> distinct (map fst props) \<Longrightarrow>
   map_of args k =
     (case map_of props k of
        None \<Rightarrow> map_of acc k
      | Some pd \<Rightarrow> (case example_value pd of None \<Rightarrow> map_of acc k | Some v \<Rightarrow> Some v))"
proof (induction props arbitrary: acc)
  case Nil
  then show ?case by simp
next
  case (Cons p props)
  obtain k' pd where p: "p = (k', pd)" by (cases p)
  from Cons.prems(1) p obtain d where d: "pd = JObj d" by (cases pd) simp_all
  define acc' where
    "acc' = (case example_value (JObj d) of None \<Rightarrow> acc | Some v \<Rightarrow> AList.update k' v acc)"
  from Cons.prems(1) have run: "synthesize_args props acc' = Inr args"
    unfolding p d synthesize_args_step acc'_def .
  from Cons.prems(2) p have fresh: "map_of props k' = None"
    by (simp add: map_of_eq_None_iff)
  from Cons.prems(2) have "distinct (map fst props)" by simp
  from Cons.IH[OF run this]
  have ih: "map_of args k =
              (case map_of props k of
                 None \<Rightarrow> map_of acc' k
               | Some pd \<Rightarrow> (case example_value pd of None \<Rightarrow> map_of acc' k | Some v \<Rightarrow> Some v))" .
  show ?case
  proof (cases "k = k'")
    case True
    have "map_of acc' k' =
            (case example_value (JObj d) of None \<Rightarrow> map_of acc k' | Some v \<Rightarrow> Some v)"
      unfolding acc'_def by (simp add: update_conv' split: option.splits)
    with ih fresh True show ?thesis
      unfolding p d by simp
  next
    case False
    have "map_of acc' k = map_of acc k"
      unfolding acc'_def using False by (simp add: update_conv' split: option.splits)
    with ih False show ?thesis
      unfolding p d by (simp split: option.splits)
  qed
qed

subsection \<open>The stdio flow\<close>

lemma calls_of_stdio_session_list_only: "calls_of (fst (stdio_session srv tool_name True)) = []"
  by (simp add: stdio_session_def print_def perform_def io_return_def
        fst_io_then snd_io_then fst_io_bind snd_io_bind
        calls_of_list_prompts_step calls_of_list_resources_step calls_of_list_tools_step
        split: sum.splits)

lemma build_tool_args_no_schema:
  assumes "find (\<lambda>t. t_name t = n) ts = Some t"
      and "t_inputSchema t = None
           \<or> (\<exists>schema. t_inputSchema t = Some schema \<and> map_of schema ''properties'' = None)"
  shows "build_tool_args (Some ts) n = Inr []"
  using assms by (auto simp: build_tool_args_def)

lemma build_tool_args_not_listed:
  "find (\<lambda>t. t_name t = n) ts = None \<Longrightarrow> build_tool_args (Some ts) n = Inr []"
  by (simp add: build_tool_args_def)

lemma calling_Print_in_call_selected_tool:
  "select_tool_name tool_name tools = Some n \<Longrightarrow> n \<noteq> [] \<Longrightarrow>
   Print (CHR 0x0A # ''--- Calling Tool: '' @ n @ '' ---'')
     \<in> set (fst (call_selected_tool srv tool_name tools))"
  by (simp add: call_selected_tool_def print_def fst_io_then)

lemma calling_Print_in_demo_stdio_client:
  assumes "established srv"
      and "catchable (on_list_prompts srv)"
      and "catchable (on_list_resources srv)"
      and "catchable (on_list_tools srv)"
      and "select_tool_name tool_name (listed (on_list_tools srv)) = Some n"
      and "n \<noteq> []"
  shows "Print (CHR 0x0A # ''--- Calling Tool: '' @ n @ '' ---'')
           \<in> set (fst (demo_stdio_client srv host port docker_image tool_name False))"
  using calling_Print_in_call_selected_tool[OF assms(5,6), of srv]
  by (simp add: demo_stdio_client_established[OF assms(1-4)] fst_try_except_Exception)

subsection \<open>The HTTP flow\<close>

lemma contains_iff: "contains s p \<longleftrightarrow> (\<exists>pre post. s = pre @ p @ post)"
proof (induction s)
  case Nil
  then show ?case by auto
next
  case (Cons c cs)
  show ?case
  proof (cases "take (length p) (c # cs) = p")
    case True
    then have "c # cs = [] @ p @ drop (length p) (c # cs)"
      by (metis append_Nil append_take_drop_id)
    then have "\<exists>pre post. c # cs = pre @ p @ post" by blast
    with True show ?thesis by simp
  next
    case False
    have "(\<exists>pre post. c # cs = pre @ p @ post) \<longleftrightarrow> (\<exists>pre post. cs = pre @ p @ post)"
    proof
      assume "\<exists>pre post. c # cs = pre @ p @ post"
      then obtain pre post where e: "c # cs = pre @ p @ post" by blast
      show "\<exists>pre post. cs = pre @ p @ post"
      proof (cases pre)
        case Nil
        with e have "take (length p) (c # cs) = p" by simp
        with False show ?thesis by simp
      next
        case (Cons x pre')
        with e have "cs = pre' @ p @ post" by simp
        then show ?thesis by blast
      qed
    next
      assume "\<exists>pre post. cs = pre @ p @ post"
      then obtain pre post where "cs = pre @ p @ post" by blast
      then have "c # cs = (c # pre) @ p @ post" by simp
      then show "\<exists>pre post. c # cs = pre @ p @ post" by blast
    qed
    with False Cons.IH show ?thesis by simp
  qed
qed

lemma calls_of_http_tools_step:
  "calls_of (fst (http_tools_step srv)) =
     (case on_list_tools srv of
        Inl e \<Rightarrow> []
      | Inr [] \<Rightarrow> []
      | Inr (t # ts) \<Rightarrow>
          [(t_name t,
            if contains (lower (t_name t)) ''echo'' then [(''message'', JStr ''Hello via HTTP!'')]
            else [])])"
  by (simp add: http_tools_step_def print_def perform_def for_each_print[unfolded print_def]
        fst_io_then snd_io_then fst_io_bind snd_io_bind fst_try_except_Exception
        split: sum.splits list.splits)

lemma calls_of_http_resources_step: "calls_of (fst (http_resources_step srv)) = []"
  by (simp add: http_resources_step_def print_def perform_def for_each_print[unfolded print_def]
        fst_io_then snd_io_then fst_io_bind snd_io_bind fst_try_except_Exception
        split: sum.splits list.splits)

lemma connects_of_http_tools_step: "connects_of (fst (http_tools_step srv)) = []"
  by (simp add: http_tools_step_def print_def perform_def for_each_print[unfolded print_def]
        fst_io_then snd_io_then fst_io_bind snd_io_bind fst_try_except_Exception
        split: sum.splits list.splits)

lemma connects_of_http_resources_step: "connects_of (fst (http_resources_step srv)) = []"
  by (simp add: http_resources_step_def print_def perform_def for_each_print[unfolded print_def]
        fst_io_then snd_io_then fst_io_bind snd_io_bind fst_try_except_Exception
        split: sum.splits list.splits)

lemma launches_of_http_tools_step: "launches_of (fst (http_tools_step srv)) = []"
  by (simp add: http_tools_step_def print_def perform_def for_each_print[unfolded print_def]
        fst_io_then snd_io_then fst_io_bind snd_io_bind fst_try_except_Exception
        split: sum.splits list.splits)

lemma launches_of_http_resources_step: "launches_of (fst (http_resources_step srv)) = []"
  by (simp add: http_resources_step_def print_def perform_def for_each_print[unfolded print_def]
        fst_io_then snd_io_then fst_io_bind snd_io_bind fst_try_except_Exception
        split: sum.splits list.splits)

lemma connects_of_http_try_body: "connects_of (fst (http_try_body srv server_url)) = [server_url]"
  by (simp add: http_try_body_def async_with_def print_def perform_def
        fst_io_then snd_io_then fst_io_bind snd_io_bind
        connects_of_http_tools_step connects_of_http_resources_step
        split: sum.splits)

lemma launches_of_http_try_body: "launches_of (fst (http_try_body srv server_url)) = []"
  by (simp add: http_try_body_def async_with_def print_def perform_def
        fst_io_then snd_io_then fst_io_bind snd_io_bind
        launches_of_http_tools_step launches_of_http_resources_step
        split: sum.splits)

lemma calls_of_http_try_body:
  "established srv \<Longrightarrow>
   calls_of (fst (http_try_body srv server_url)) = calls_of (fst (http_tools_step srv))"
  by (simp add: http_try_body_def established_def async_with_def print_def perform_def
        fst_io_then snd_io_then fst_io_bind snd_io_bind
        calls_of_http_resources_step
        split: sum.splits)

lemma on_ConnectionError_eq:
  "on_ConnectionError server_url e =
     ([Print (''HTTP connection failed: '' @ str_exn e),
       Print (''Make sure an MCP server is running at '' @ server_url),
       Print ''To start the server in HTTP mode, run:'',
       Print ''  python mcp/mcp_server.py --transport streamable-http --port 8000''], Inr ())"
  by (simp add: on_ConnectionError_def how_to_start_server_def print_def)

lemma on_Exception_eq:
  "on_Exception server_url e =
     ([Print (''HTTP client error: '' @ str_exn e),
       Print (''This might be because no server is running at '' @ server_url),
       Print ''To start the server in HTTP mode, run:'',
       Print ''  python mcp/mcp_server.py --transport streamable-http --port 8000''], Inr ())"
  by (simp add: on_Exception_def how_to_start_server_def print_def)

lemma fst_demo_http_client:
  "fst (demo_http_client srv server_url) =
     [Print (CHR 0x0A # ''=== MCP HTTP Client Demo ===''),
      Print (''Attempting to connect to: '' @ server_url)]
     @ fst (http_try_body srv server_url)
     @ (case snd (http_try_body srv server_url) of
          Inl e \<Rightarrow>
            if is_ConnectionError e then fst (on_ConnectionError server_url e)
            else if is_Exception e then fst (on_Exception server_url e)
            else []
        | Inr u \<Rightarrow> [])"
  by (simp add: demo_http_client_def print_def try_except_ConnectionError_Exception_def
        split: sum.splits)

lemma snd_demo_http_client:
  "snd (demo_http_client srv server_url) =
     (case snd (http_try_body srv server_url) of
        Inl e \<Rightarrow> if is_Exception e then Inr () else Inl e
      | Inr u \<Rightarrow> Inr ())"
proof (cases "snd (http_try_body srv server_url)")
  case (Inl e)
  then show ?thesis
    by (cases e)
       (simp_all add: demo_http_client_def print_def try_except_ConnectionError_Exception_def
          on_ConnectionError_eq on_Exception_eq)
next
  case (Inr u)
  then show ?thesis
    by (simp add: demo_http_client_def print_def try_except_ConnectionError_Exception_def)
qed

section \<open>The claims\<close>

text \<open>
  C1. The argument synthesizer of the stdio flow, on the properties of a schema (a dict
  from property name to a property definition, itself a dict that may carry a "type"),
  returns a mapping with exactly one entry for each property whose type is "string",
  "integer" or "number", holding "example", 42 and 3.14 respectively, and no entry at
  all for a property whose type is absent or anything else.
\<close>

theorem synthesize_args_entries:
  assumes "distinct (map fst props)" and "list_all is_dict (map snd props)"
  shows "\<exists>tool_args. synthesize_args props [] = Inr tool_args
           \<and> distinct (map fst tool_args)
           \<and> (\<forall>prop_name. map_of tool_args prop_name =
                 (case map_of props prop_name of
                    None \<Rightarrow> None
                  | Some prop_def \<Rightarrow>
                      (case prop_def of
                         JObj d \<Rightarrow>
                           if map_of d ''type'' = Some (JStr ''string'') then Some (JStr ''example'')
                           else if map_of d ''type'' = Some (JStr ''integer'') then Some (JInt 42)
                           else if map_of d ''type'' = Some (JStr ''number'') then Some (JFloat 314 2)
                           else None
                       | _ \<Rightarrow> None)))"
proof -
  from synthesize_args_total[OF assms(2)]
  obtain tool_args where run: "synthesize_args props [] = Inr tool_args" by blast
  have d: "distinct (map fst tool_args)"
    using synthesize_args_distinct[OF run] by simp
  have "map_of tool_args prop_name =
          (case map_of props prop_name of
             None \<Rightarrow> None
           | Some prop_def \<Rightarrow>
               (case prop_def of
                  JObj d \<Rightarrow>
                    if map_of d ''type'' = Some (JStr ''string'') then Some (JStr ''example'')
                    else if map_of d ''type'' = Some (JStr ''integer'') then Some (JInt 42)
                    else if map_of d ''type'' = Some (JStr ''number'') then Some (JFloat 314 2)
                    else None
                | _ \<Rightarrow> None))" for prop_name
    unfolding synthesize_args_map_of[OF run assms(1), of prop_name]
    by (simp split: option.splits json.splits)
  with run d show ?thesis by blast
qed

theorem synthesize_args_entries_witness:
  "distinct (map fst props0) \<and> list_all is_dict (map snd props0)
   \<and> (\<exists>tool_args. synthesize_args props0 [] = Inr tool_args
           \<and> distinct (map fst tool_args)
           \<and> (\<forall>prop_name. map_of tool_args prop_name =
                 (case map_of props0 prop_name of
                    None \<Rightarrow> None
                  | Some prop_def \<Rightarrow>
                      (case prop_def of
                         JObj d \<Rightarrow>
                           if map_of d ''type'' = Some (JStr ''string'') then Some (JStr ''example'')
                           else if map_of d ''type'' = Some (JStr ''integer'') then Some (JInt 42)
                           else if map_of d ''type'' = Some (JStr ''number'') then Some (JFloat 314 2)
                           else None
                       | _ \<Rightarrow> None))))
   \<and> synthesize_args props0 [] =
        Inr [(''a'', JStr ''example''), (''b'', JInt 42), (''c'', JFloat 314 2)]"
proof -
  have h1: "distinct (map fst props0)" by (simp add: props0_def)
  have h2: "list_all is_dict (map snd props0)" by (simp add: props0_def)
  have run: "synthesize_args props0 [] =
               Inr [(''a'', JStr ''example''), (''b'', JInt 42), (''c'', JFloat 314 2)]"
    by (simp add: props0_def)
  show ?thesis using h1 h2 run synthesize_args_entries[OF h1 h2] by simp
qed

text \<open>
  C2, as the code has it. In the stdio flow with the session established and list-only
  not set, the tool selected for invocation is the explicitly named tool whenever a
  non-empty name is given, whether or not that name is in the listed set; otherwise it
  is the first tool of the listed set; and when no non-empty name is given and the
  listed set is empty or the listing failed, nothing is selected and no tool call is
  made. A selected non-empty name is announced, no tool of another name is called, and
  once the arguments are built the one call made is the call of that name.
\<close>

theorem tool_selection:
  assumes "established srv"
      and "catchable (on_list_prompts srv)"
      and "catchable (on_list_resources srv)"
      and "catchable (on_list_tools srv)"
  shows "(truthy tool_name \<longrightarrow>
            select_tool_name tool_name (listed (on_list_tools srv)) = tool_name)
       \<and> (\<not> truthy tool_name \<longrightarrow>
            (case listed (on_list_tools srv) of
               Some (t # ts) \<Rightarrow>
                 select_tool_name tool_name (listed (on_list_tools srv)) = Some (t_name t)
             | _ \<Rightarrow> \<not> truthy (select_tool_name tool_name (listed (on_list_tools srv)))))
       \<and> (\<not> truthy (select_tool_name tool_name (listed (on_list_tools srv))) \<longrightarrow>
            calls_of (fst (demo_stdio_client srv host port docker_image tool_name False)) = [])
       \<and> (\<forall>n. select_tool_name tool_name (listed (on_list_tools srv)) = Some n \<and> n \<noteq> [] \<longrightarrow>
            Print (CHR 0x0A # ''--- Calling Tool: '' @ n @ '' ---'')
              \<in> set (fst (demo_stdio_client srv host port docker_image tool_name False))
            \<and> set (map fst (calls_of
                    (fst (demo_stdio_client srv host port docker_image tool_name False))))
                \<subseteq> {n}
            \<and> (\<forall>a. build_tool_args (listed (on_list_tools srv)) n = Inr a \<longrightarrow>
                  calls_of (fst (demo_stdio_client srv host port docker_image tool_name False))
                    = [(n, a)]))"
proof (intro conjI impI allI)
  assume "truthy tool_name"
  then show "select_tool_name tool_name (listed (on_list_tools srv)) = tool_name"
    by (simp add: select_tool_name_def)
next
  assume "\<not> truthy tool_name"
  then show "case listed (on_list_tools srv) of
               Some (t # ts) \<Rightarrow>
                 select_tool_name tool_name (listed (on_list_tools srv)) = Some (t_name t)
             | _ \<Rightarrow> \<not> truthy (select_tool_name tool_name (listed (on_list_tools srv)))"
    by (simp add: select_tool_name_def split: option.splits list.splits)
next
  assume "\<not> truthy (select_tool_name tool_name (listed (on_list_tools srv)))"
  then show "calls_of (fst (demo_stdio_client srv host port docker_image tool_name False)) = []"
    unfolding calls_of_demo_stdio_client[OF assms]
    by (cases "select_tool_name tool_name (listed (on_list_tools srv))") simp_all
next
  fix n
  assume s: "select_tool_name tool_name (listed (on_list_tools srv)) = Some n \<and> n \<noteq> []"
  then show "Print (CHR 0x0A # ''--- Calling Tool: '' @ n @ '' ---'')
              \<in> set (fst (demo_stdio_client srv host port docker_image tool_name False))"
    using calling_Print_in_demo_stdio_client[OF assms] by blast
  from s show "set (map fst (calls_of
                    (fst (demo_stdio_client srv host port docker_image tool_name False))))
                \<subseteq> {n}"
    unfolding calls_of_demo_stdio_client[OF assms]
    by (cases "build_tool_args (listed (on_list_tools srv)) n") simp_all
  fix a
  assume "build_tool_args (listed (on_list_tools srv)) n = Inr a"
  with s show "calls_of (fst (demo_stdio_client srv host port docker_image tool_name False))
                    = [(n, a)]"
    unfolding calls_of_demo_stdio_client[OF assms] by simp
qed

theorem tool_selection_witness:
  "established demo_server
   \<and> catchable (on_list_prompts demo_server)
   \<and> catchable (on_list_resources demo_server)
   \<and> catchable (on_list_tools demo_server)
   \<and> listed (on_list_tools demo_server) = Some [tool_a, tool_b]
   \<and> \<not> truthy None
   \<and> select_tool_name None (listed (on_list_tools demo_server)) = Some ''a''
   \<and> calls_of (fst (demo_stdio_client demo_server ''host.docker.internal'' 8811
                       ''alpine/socat'' None False))
        = [(''a'', [(''a'', JStr ''example''), (''b'', JInt 42), (''c'', JFloat 314 2)])]
   \<and> truthy (Some ''b'')
   \<and> select_tool_name (Some ''b'') (listed (on_list_tools demo_server)) = Some ''b''
   \<and> calls_of (fst (demo_stdio_client demo_server ''host.docker.internal'' 8811
                       ''alpine/socat'' (Some ''b'') False)) = [(''b'', [])]
   \<and> truthy (Some ''c'')
   \<and> select_tool_name (Some ''c'') (listed (on_list_tools demo_server)) = Some ''c''
   \<and> Print (CHR 0x0A # ''--- Calling Tool: '' @ ''c'' @ '' ---'')
        \<in> set (fst (demo_stdio_client demo_server ''host.docker.internal'' 8811
                       ''alpine/socat'' (Some ''c'') False))
   \<and> calls_of (fst (demo_stdio_client demo_server ''host.docker.internal'' 8811
                       ''alpine/socat'' (Some ''c'') False)) = [(''c'', [])]"
proof -
  have h1: "established demo_server" by (simp add: demo_server_def established_def)
  have h2: "catchable (on_list_prompts demo_server)" by (simp add: demo_server_def)
  have h3: "catchable (on_list_resources demo_server)" by (simp add: demo_server_def)
  have h4: "catchable (on_list_tools demo_server)" by (simp add: demo_server_def)
  have l: "listed (on_list_tools demo_server) = Some [tool_a, tool_b]"
    by (simp add: demo_server_def tools_ab_def)
  have ne: "''a'' \<noteq> []" "''b'' \<noteq> []" "''c'' \<noteq> []" by simp_all
  have args_a: "build_tool_args (listed (on_list_tools demo_server)) ''a''
                  = Inr [(''a'', JStr ''example''), (''b'', JInt 42), (''c'', JFloat 314 2)]"
    unfolding l by (simp add: tool_a_def tool_b_def props0_def build_tool_args_def)
  have args_b: "build_tool_args (listed (on_list_tools demo_server)) ''b'' = Inr []"
    unfolding l by (simp add: tool_a_def tool_b_def build_tool_args_def)
  have args_c: "build_tool_args (listed (on_list_tools demo_server)) ''c'' = Inr []"
    unfolding l by (simp add: tool_a_def tool_b_def build_tool_args_def)
  note none = tool_selection[OF h1 h2 h3 h4, of None "''host.docker.internal''" 8811
                "''alpine/socat''"]
  note b = tool_selection[OF h1 h2 h3 h4, of "Some ''b''" "''host.docker.internal''" 8811
             "''alpine/socat''"]
  note c = tool_selection[OF h1 h2 h3 h4, of "Some ''c''" "''host.docker.internal''" 8811
             "''alpine/socat''"]
  have tn: "\<not> truthy None" by simp
  have tb: "truthy (Some ''b'')" by simp
  have tc: "truthy (Some ''c'')" by simp
  from none tn
  have "case listed (on_list_tools demo_server) of
          Some (t # ts) \<Rightarrow>
            select_tool_name None (listed (on_list_tools demo_server)) = Some (t_name t)
        | _ \<Rightarrow> \<not> truthy (select_tool_name None (listed (on_list_tools demo_server)))"
    by blast
  then have sel_a: "select_tool_name None (listed (on_list_tools demo_server)) = Some ''a''"
    unfolding l by (simp add: tool_a_def)
  from b tb have sel_b: "select_tool_name (Some ''b'') (listed (on_list_tools demo_server)) = Some ''b''"
    by blast
  from c tc have sel_c: "select_tool_name (Some ''c'') (listed (on_list_tools demo_server)) = Some ''c''"
    by blast
  from none sel_a ne(1) args_a
  have calls_a: "calls_of (fst (demo_stdio_client demo_server ''host.docker.internal'' 8811
                       ''alpine/socat'' None False))
        = [(''a'', [(''a'', JStr ''example''), (''b'', JInt 42), (''c'', JFloat 314 2)])]"
    by blast
  from b sel_b ne(2) args_b
  have calls_b: "calls_of (fst (demo_stdio_client demo_server ''host.docker.internal'' 8811
                       ''alpine/socat'' (Some ''b'') False)) = [(''b'', [])]"
    by blast
  from c sel_c ne(3) args_c
  have calls_c: "calls_of (fst (demo_stdio_client demo_server ''host.docker.internal'' 8811
                       ''alpine/socat'' (Some ''c'') False)) = [(''c'', [])]"
    by blast
  from c sel_c ne(3)
  have print_c: "Print (CHR 0x0A # ''--- Calling Tool: '' @ ''c'' @ '' ---'')
        \<in> set (fst (demo_stdio_client demo_server ''host.docker.internal'' 8811
                       ''alpine/socat'' (Some ''c'') False))"
    by blast
  from h1 h2 h3 h4 l tn sel_a calls_a tb sel_b calls_b tc sel_c print_c calls_c
  show ?thesis by blast
qed

text \<open>
  C2 as the spec states it fails: with the tools "a" and "b" listed and the name "c"
  given, the spec's selection is the first tool "a" and the code calls "c"; with no
  tool listed and the name "c" given, the spec's selection is no call and the code
  calls "c".
\<close>

theorem tool_selection_counterexample:
  "spec_tool_selection (Some ''c'') tools_ab = Some ''a''
   \<and> calls_of (fst (demo_stdio_client demo_server ''host.docker.internal'' 8811
                       ''alpine/socat'' (Some ''c'') False)) = [(''c'', [])]
   \<and> spec_tool_selection (Some ''c'') [] = None
   \<and> calls_of (fst (demo_stdio_client no_tools_server ''host.docker.internal'' 8811
                       ''alpine/socat'' (Some ''c'') False)) = [(''c'', [])]"
proof -
  have d: "established demo_server" "catchable (on_list_prompts demo_server)"
    "catchable (on_list_resources demo_server)" "catchable (on_list_tools demo_server)"
    by (simp_all add: demo_server_def established_def)
  have e: "established no_tools_server" "catchable (on_list_prompts no_tools_server)"
    "catchable (on_list_resources no_tools_server)" "catchable (on_list_tools no_tools_server)"
    by (simp_all add: no_tools_server_def demo_server_def established_def)
  have 1: "spec_tool_selection (Some ''c'') tools_ab = Some ''a''"
    by (simp add: spec_tool_selection_def tools_ab_def tool_a_def tool_b_def)
  have 2: "calls_of (fst (demo_stdio_client demo_server ''host.docker.internal'' 8811
                       ''alpine/socat'' (Some ''c'') False)) = [(''c'', [])]"
    unfolding calls_of_demo_stdio_client[OF d]
    by (simp add: demo_server_def tools_ab_def tool_a_def tool_b_def select_tool_name_def build_tool_args_def)
  have 3: "spec_tool_selection (Some ''c'') [] = None"
    by (simp add: spec_tool_selection_def)
  have 4: "calls_of (fst (demo_stdio_client no_tools_server ''host.docker.internal'' 8811
                       ''alpine/socat'' (Some ''c'') False)) = [(''c'', [])]"
    unfolding calls_of_demo_stdio_client[OF e]
    by (simp add: no_tools_server_def demo_server_def select_tool_name_def build_tool_args_def)
  from 1 2 3 4 show ?thesis by simp
qed

text \<open>
  C3, as the code has it. For every parsed option set whose HTTP URL option is present
  and not the empty string, the entry point runs the HTTP flow on that URL and nothing
  else: no subprocess is launched, whatever the other options are.
\<close>

theorem http_url_runs_http_only:
  assumes "args_http_url a = Some u"
      and "u \<noteq> []"
  shows "main srv a = demo_http_client srv u
       \<and> launches_of (fst (main srv a)) = []
       \<and> connects_of (fst (main srv a)) = [u]"
proof -
  have m: "main srv a = demo_http_client srv u"
    using assms by (simp add: main_def)
  have l: "launches_of (fst (demo_http_client srv u)) = []"
    by (simp add: fst_demo_http_client launches_of_http_try_body
          on_ConnectionError_eq on_Exception_eq split: sum.splits)
  have c: "connects_of (fst (demo_http_client srv u)) = [u]"
    by (simp add: fst_demo_http_client connects_of_http_try_body
          on_ConnectionError_eq on_Exception_eq split: sum.splits)
  from m l c show ?thesis by simp
qed

theorem http_url_runs_http_only_witness:
  "args_http_url http_args = Some ''http://localhost:8000/mcp''
   \<and> ''http://localhost:8000/mcp'' \<noteq> []
   \<and> args_list_tools http_args \<and> args_tool http_args = Some ''a''
   \<and> main demo_server http_args = demo_http_client demo_server ''http://localhost:8000/mcp''
   \<and> launches_of (fst (main demo_server http_args)) = []
   \<and> connects_of (fst (main demo_server http_args)) = [''http://localhost:8000/mcp'']"
proof -
  have h1: "args_http_url http_args = Some ''http://localhost:8000/mcp''"
    by (simp add: http_args_def)
  have h2: "''http://localhost:8000/mcp'' \<noteq> []" by simp
  have o: "args_list_tools http_args \<and> args_tool http_args = Some ''a''"
    by (simp add: http_args_def)
  from http_url_runs_http_only[OF h1 h2, of demo_server] h1 h2 o show ?thesis by blast
qed

text \<open>
  C3 as stated fails when the option is present but empty (\<open>--http-url ""\<close>): the
  test at line 224 is a truth test, so the stdio flow runs and launches its subprocess,
  and no HTTP connection is made.
\<close>

theorem http_url_runs_http_only_counterexample:
  "args_http_url empty_url_args = Some []
   \<and> launches_of (fst (main demo_server empty_url_args)) =
        [(''docker'', docker_args ''alpine/socat'' ''host.docker.internal'' 8811)]
   \<and> connects_of (fst (main demo_server empty_url_args)) = []"
proof -
  have u: "args_http_url empty_url_args = Some []"
    by (simp add: empty_url_args_def)
  have m: "main demo_server empty_url_args =
             demo_stdio_client demo_server ''host.docker.internal'' 8811 ''alpine/socat''
               (Some ''a'') True"
    by (simp add: main_def empty_url_args_def http_args_def)
  have d: "established demo_server" "catchable (on_list_prompts demo_server)"
    "catchable (on_list_resources demo_server)" "catchable (on_list_tools demo_server)"
    by (simp_all add: demo_server_def established_def)
  have l: "launches_of (fst (main demo_server empty_url_args)) =
        [(''docker'', docker_args ''alpine/socat'' ''host.docker.internal'' 8811)]"
    unfolding m demo_stdio_client_established[OF d]
    by (simp add: stdio_prologue_def list_prompts_step_eq
          list_resources_step_eq list_tools_step_eq demo_server_def)
  have c: "connects_of (fst (main demo_server empty_url_args)) = []"
    unfolding m demo_stdio_client_established[OF d]
    by (simp add: stdio_prologue_def list_prompts_step_eq
          list_resources_step_eq list_tools_step_eq demo_server_def)
  from u l c show ?thesis by simp
qed

text \<open>
  C4. In the stdio flow with the list-only flag set, no tool call is ever started,
  whatever the server answers and whatever tool name is given; and when the session
  is established the flow returns normally right after the three listings: the
  operations it started are the handshake and the listings of prompts, resources and
  tools, and the events of the tool listing are the last of the run.
\<close>

theorem list_only_no_tool_call:
  "calls_of (fst (demo_stdio_client srv host port docker_image tool_name True)) = []
   \<and> (established srv \<and> catchable (on_list_prompts srv) \<and> catchable (on_list_resources srv)
        \<and> catchable (on_list_tools srv)
      \<longrightarrow> operations_of (fst (demo_stdio_client srv host port docker_image tool_name True))
            = [Initialize, ListPrompts, ListResources, ListTools]
          \<and> fst (demo_stdio_client srv host port docker_image tool_name True)
            = stdio_prologue host port docker_image @ fst (list_prompts_step srv)
              @ fst (list_resources_step srv) @ fst (list_tools_step srv)
          \<and> snd (demo_stdio_client srv host port docker_image tool_name True) = Inr ())"
proof (intro conjI impI)
  show "calls_of (fst (demo_stdio_client srv host port docker_image tool_name True)) = []"
    by (simp add: demo_stdio_client_def async_with_def print_def perform_def
          fst_io_then snd_io_then fst_io_bind snd_io_bind fst_try_except_Exception
          calls_of_stdio_session_list_only split: sum.splits)
next
  assume h: "established srv \<and> catchable (on_list_prompts srv) \<and> catchable (on_list_resources srv)
        \<and> catchable (on_list_tools srv)"
  then show "operations_of (fst (demo_stdio_client srv host port docker_image tool_name True))
            = [Initialize, ListPrompts, ListResources, ListTools]"
    by (simp add: demo_stdio_client_established stdio_prologue_def
          operations_of_list_prompts_step operations_of_list_resources_step
          operations_of_list_tools_step)
  from h show "fst (demo_stdio_client srv host port docker_image tool_name True)
            = stdio_prologue host port docker_image @ fst (list_prompts_step srv)
              @ fst (list_resources_step srv) @ fst (list_tools_step srv)"
    by (simp add: demo_stdio_client_established)
  from h show "snd (demo_stdio_client srv host port docker_image tool_name True) = Inr ()"
    by (simp add: demo_stdio_client_def established_def async_with_def print_def perform_def
          snd_io_then snd_io_bind snd_try_except_Exception stdio_session_listings)
qed

theorem list_only_no_tool_call_witness:
  "calls_of (fst (demo_stdio_client demo_server ''host.docker.internal'' 8811 ''alpine/socat''
                    (Some ''a'') True)) = []
   \<and> (established demo_server \<and> catchable (on_list_prompts demo_server)
        \<and> catchable (on_list_resources demo_server) \<and> catchable (on_list_tools demo_server))
   \<and> operations_of (fst (demo_stdio_client demo_server ''host.docker.internal'' 8811
                            ''alpine/socat'' (Some ''a'') True))
       = [Initialize, ListPrompts, ListResources, ListTools]
   \<and> fst (demo_stdio_client demo_server ''host.docker.internal'' 8811 ''alpine/socat''
             (Some ''a'') True)
       = stdio_prologue ''host.docker.internal'' 8811 ''alpine/socat''
         @ fst (list_prompts_step demo_server) @ fst (list_resources_step demo_server)
         @ fst (list_tools_step demo_server)
   \<and> snd (demo_stdio_client demo_server ''host.docker.internal'' 8811 ''alpine/socat''
             (Some ''a'') True) = Inr ()"
proof -
  have h: "established demo_server \<and> catchable (on_list_prompts demo_server)
        \<and> catchable (on_list_resources demo_server) \<and> catchable (on_list_tools demo_server)"
    by (simp add: demo_server_def established_def)
  show ?thesis
    using h list_only_no_tool_call[of demo_server "''host.docker.internal''" 8811
                                      "''alpine/socat''" "Some ''a''"]
    by blast
qed

text \<open>
  C5. In the HTTP flow with the session established and a non-empty tool listing, the
  one tool called is the first of the listing; when its name, lowered, contains "echo"
  the argument mapping is exactly {"message": "Hello via HTTP!"}, otherwise it is the
  empty mapping.
\<close>

theorem http_first_tool_called:
  assumes "established srv"
      and "on_list_tools srv = Inr (t # ts)"
  shows "calls_of (fst (demo_http_client srv server_url)) =
           [(t_name t,
             if (\<exists>pre post. lower (t_name t) = pre @ ''echo'' @ post)
             then [(''message'', JStr ''Hello via HTTP!'')]
             else [])]"
proof -
  have "calls_of (fst (demo_http_client srv server_url)) = calls_of (fst (http_tools_step srv))"
    by (simp add: fst_demo_http_client calls_of_http_try_body[OF assms(1)]
          on_ConnectionError_eq on_Exception_eq split: sum.splits)
  then show ?thesis
    using assms(2) by (simp add: calls_of_http_tools_step contains_iff)
qed

theorem http_first_tool_called_witness:
  "established echo_server
   \<and> on_list_tools echo_server = Inr (echo_tool # [uppercase_tool])
   \<and> t_name echo_tool = ''EchoTool''
   \<and> (\<exists>pre post. lower ''EchoTool'' = pre @ ''echo'' @ post)
   \<and> calls_of (fst (demo_http_client echo_server ''http://localhost:8000/mcp'')) =
        [(''EchoTool'', [(''message'', JStr ''Hello via HTTP!'')])]
   \<and> established uppercase_server
   \<and> on_list_tools uppercase_server = Inr (uppercase_tool # [echo_tool])
   \<and> t_name uppercase_tool = ''uppercase''
   \<and> \<not> (\<exists>pre post. lower ''uppercase'' = pre @ ''echo'' @ post)
   \<and> calls_of (fst (demo_http_client uppercase_server ''http://localhost:8000/mcp'')) =
        [(''uppercase'', [])]"
proof -
  have h1: "established echo_server"
    by (simp add: echo_server_def demo_server_def established_def)
  have h2: "on_list_tools echo_server = Inr (echo_tool # [uppercase_tool])"
    by (simp add: echo_server_def)
  have n: "t_name echo_tool = ''EchoTool''"
    by (simp add: echo_tool_def)
  have "contains (lower ''EchoTool'') ''echo''"
    by code_simp
  then have e: "\<exists>pre post. lower ''EchoTool'' = pre @ ''echo'' @ post"
    by (simp only: contains_iff)
  have g1: "established uppercase_server"
    by (simp add: uppercase_server_def demo_server_def established_def)
  have g2: "on_list_tools uppercase_server = Inr (uppercase_tool # [echo_tool])"
    by (simp add: uppercase_server_def)
  have m: "t_name uppercase_tool = ''uppercase''"
    by (simp add: uppercase_tool_def)
  have "\<not> contains (lower ''uppercase'') ''echo''"
    by code_simp
  then have u: "\<not> (\<exists>pre post. lower ''uppercase'' = pre @ ''echo'' @ post)"
    unfolding contains_iff .
  from http_first_tool_called[OF h1 h2, of "''http://localhost:8000/mcp''"] n e
  have c1: "calls_of (fst (demo_http_client echo_server ''http://localhost:8000/mcp'')) =
        [(''EchoTool'', [(''message'', JStr ''Hello via HTTP!'')])]"
    by simp
  from http_first_tool_called[OF g1 g2, of "''http://localhost:8000/mcp''"] m u
  have c2: "calls_of (fst (demo_http_client uppercase_server ''http://localhost:8000/mcp'')) =
        [(''uppercase'', [])]"
    by simp
  from h1 h2 n e c1 g1 g2 m u c2 show ?thesis by blast
qed

text \<open>
  C6. In the stdio flow with the session established, an error (an \<open>Exception\<close>)
  raised by the listing of prompts, of resources or of tools is reported right where
  the listing was started and stops nothing: the handshake and the three listings are
  always the first four operations, each failed listing is followed at once by its
  error line, and unless list-only is set the selection and call of a tool follow,
  working from whatever the tool listing gave.
\<close>

theorem listing_errors_isolated:
  assumes "established srv"
      and "catchable (on_list_prompts srv)"
      and "catchable (on_list_resources srv)"
      and "catchable (on_list_tools srv)"
  shows "take 4 (operations_of (fst (demo_stdio_client srv host port docker_image tool_name list_only)))
           = [Initialize, ListPrompts, ListResources, ListTools]
       \<and> (\<forall>e. on_list_prompts srv = Inl e \<longrightarrow>
             (\<exists>pre post. fst (demo_stdio_client srv host port docker_image tool_name list_only)
                = pre @ [ListPrompts, Print (''Error listing prompts: '' @ str_exn e)] @ post))
       \<and> (\<forall>e. on_list_resources srv = Inl e \<longrightarrow>
             (\<exists>pre post. fst (demo_stdio_client srv host port docker_image tool_name list_only)
                = pre @ [ListResources, Print (''Error listing resources: '' @ str_exn e)] @ post))
       \<and> (\<forall>e. on_list_tools srv = Inl e \<longrightarrow>
             (\<exists>pre post. fst (demo_stdio_client srv host port docker_image tool_name list_only)
                = pre @ [ListTools, Print (''Error listing tools: '' @ str_exn e)] @ post))
       \<and> (\<not> list_only \<longrightarrow>
             (\<exists>pre post. fst (demo_stdio_client srv host port docker_image tool_name list_only)
                = pre @ fst (call_selected_tool srv tool_name (listed (on_list_tools srv))) @ post))"
proof -
  define tr where "tr = fst (demo_stdio_client srv host port docker_image tool_name list_only)"
  define rest where
    "rest = (if list_only then []
             else fst (try_except_Exception
                         (call_selected_tool srv tool_name (listed (on_list_tools srv)))
                         (\<lambda>e. print (''Stdio client error: '' @ str_exn e))))"
  have tr: "tr = stdio_prologue host port docker_image
                 @ fst (list_prompts_step srv) @ fst (list_resources_step srv)
                 @ fst (list_tools_step srv) @ rest"
    unfolding tr_def rest_def by (rule demo_stdio_client_established[OF assms])
  have ops: "take 4 (operations_of tr) = [Initialize, ListPrompts, ListResources, ListTools]"
    unfolding tr
    by (simp add: stdio_prologue_def operations_of_list_prompts_step
          operations_of_list_resources_step operations_of_list_tools_step)
  have prompts: "\<exists>pre post. tr = pre @ [ListPrompts, Print (''Error listing prompts: '' @ str_exn e)] @ post"
    if "on_list_prompts srv = Inl e" for e
  proof -
    from that assms(2) have "is_Exception e" by simp
    with that have "fst (list_prompts_step srv) =
        [Print (CHR 0x0A # ''--- Listing Prompts ---'')]
        @ [ListPrompts, Print (''Error listing prompts: '' @ str_exn e)]"
      by (simp add: list_prompts_step_eq)
    then have "tr = (stdio_prologue host port docker_image
                      @ [Print (CHR 0x0A # ''--- Listing Prompts ---'')])
                 @ [ListPrompts, Print (''Error listing prompts: '' @ str_exn e)]
                 @ (fst (list_resources_step srv) @ fst (list_tools_step srv) @ rest)"
      unfolding tr by simp
    then show ?thesis by blast
  qed
  have resources: "\<exists>pre post. tr = pre @ [ListResources, Print (''Error listing resources: '' @ str_exn e)] @ post"
    if "on_list_resources srv = Inl e" for e
  proof -
    from that assms(3) have "is_Exception e" by simp
    with that have "fst (list_resources_step srv) =
        [Print (CHR 0x0A # ''--- Listing Resources ---'')]
        @ [ListResources, Print (''Error listing resources: '' @ str_exn e)]"
      by (simp add: list_resources_step_eq)
    then have "tr = (stdio_prologue host port docker_image @ fst (list_prompts_step srv)
                      @ [Print (CHR 0x0A # ''--- Listing Resources ---'')])
                 @ [ListResources, Print (''Error listing resources: '' @ str_exn e)]
                 @ (fst (list_tools_step srv) @ rest)"
      unfolding tr by simp
    then show ?thesis by blast
  qed
  have tools: "\<exists>pre post. tr = pre @ [ListTools, Print (''Error listing tools: '' @ str_exn e)] @ post"
    if "on_list_tools srv = Inl e" for e
  proof -
    from that assms(4) have "is_Exception e" by simp
    with that have "fst (list_tools_step srv) =
        [Print (CHR 0x0A # ''--- Listing Tools ---'')]
        @ [ListTools, Print (''Error listing tools: '' @ str_exn e)]"
      by (simp add: list_tools_step_eq)
    then have "tr = (stdio_prologue host port docker_image @ fst (list_prompts_step srv)
                      @ fst (list_resources_step srv)
                      @ [Print (CHR 0x0A # ''--- Listing Tools ---'')])
                 @ [ListTools, Print (''Error listing tools: '' @ str_exn e)]
                 @ rest"
      unfolding tr by simp
    then show ?thesis by blast
  qed
  have call: "\<exists>pre post. tr = pre @ fst (call_selected_tool srv tool_name (listed (on_list_tools srv))) @ post"
    if "\<not> list_only"
  proof -
    from that obtain extra where
      "rest = fst (call_selected_tool srv tool_name (listed (on_list_tools srv))) @ extra"
      unfolding rest_def by (simp add: fst_try_except_Exception)
    then have "tr = (stdio_prologue host port docker_image @ fst (list_prompts_step srv)
                      @ fst (list_resources_step srv) @ fst (list_tools_step srv))
                 @ fst (call_selected_tool srv tool_name (listed (on_list_tools srv))) @ extra"
      unfolding tr by simp
    then show ?thesis by blast
  qed
  from ops prompts resources tools call show ?thesis
    unfolding tr_def by blast
qed

theorem listing_errors_isolated_witness:
  "established failing_resources_server
   \<and> catchable (on_list_prompts failing_resources_server)
   \<and> catchable (on_list_resources failing_resources_server)
   \<and> catchable (on_list_tools failing_resources_server)
   \<and> on_list_resources failing_resources_server = Inl (OtherException ''Method not found'')
   \<and> take 4 (operations_of (fst (demo_stdio_client failing_resources_server
                 ''host.docker.internal'' 8811 ''alpine/socat'' None False)))
         = [Initialize, ListPrompts, ListResources, ListTools]
   \<and> (\<exists>pre post. fst (demo_stdio_client failing_resources_server
                 ''host.docker.internal'' 8811 ''alpine/socat'' None False)
         = pre @ [ListResources,
                  Print (''Error listing resources: '' @ str_exn (OtherException ''Method not found''))]
               @ post)
   \<and> (\<exists>pre post. fst (demo_stdio_client failing_resources_server
                 ''host.docker.internal'' 8811 ''alpine/socat'' None False)
         = pre @ fst (call_selected_tool failing_resources_server None
                        (listed (on_list_tools failing_resources_server))) @ post)
   \<and> calls_of (fst (demo_stdio_client failing_resources_server
                 ''host.docker.internal'' 8811 ''alpine/socat'' None False))
         = [(''a'', [(''a'', JStr ''example''), (''b'', JInt 42), (''c'', JFloat 314 2)])]"
proof -
  have h1: "established failing_resources_server"
    by (simp add: failing_resources_server_def demo_server_def established_def)
  have h2: "catchable (on_list_prompts failing_resources_server)"
    by (simp add: failing_resources_server_def demo_server_def)
  have h3: "catchable (on_list_resources failing_resources_server)"
    by (simp add: failing_resources_server_def demo_server_def)
  have h4: "catchable (on_list_tools failing_resources_server)"
    by (simp add: failing_resources_server_def demo_server_def)
  have r: "on_list_resources failing_resources_server = Inl (OtherException ''Method not found'')"
    by (simp add: failing_resources_server_def)
  have c: "calls_of (fst (demo_stdio_client failing_resources_server
                 ''host.docker.internal'' 8811 ''alpine/socat'' None False))
         = [(''a'', [(''a'', JStr ''example''), (''b'', JInt 42), (''c'', JFloat 314 2)])]"
    unfolding calls_of_demo_stdio_client[OF h1 h2 h3 h4]
    by (simp add: failing_resources_server_def demo_server_def tools_ab_def tool_a_def tool_b_def props0_def
          select_tool_name_def build_tool_args_def)
  note t = listing_errors_isolated[OF h1 h2 h3 h4, of "''host.docker.internal''" 8811
             "''alpine/socat''" None False]
  from t r c h1 h2 h3 h4 show ?thesis by blast
qed

text \<open>
  C7. In the HTTP flow, every error (an \<open>Exception\<close>) that leaves the body of the
  \<open>try\<close> ends in exactly one of two handlers, the one for connection errors or the
  catch-all one; either prints the failure and then the remedy naming the given URL;
  the flow then returns normally, so the error does not reach the caller, and the
  endpoint was connected to once only: nothing is retried.
\<close>

theorem http_errors_terminal:
  assumes "snd (http_try_body srv server_url) = Inl e"
      and "is_Exception e"
  shows "snd (demo_http_client srv server_url) = Inr ()
       \<and> fst (demo_http_client srv server_url) =
           [Print (CHR 0x0A # ''=== MCP HTTP Client Demo ===''),
            Print (''Attempting to connect to: '' @ server_url)]
           @ fst (http_try_body srv server_url)
           @ (if is_ConnectionError e then
                [Print (''HTTP connection failed: '' @ str_exn e),
                 Print (''Make sure an MCP server is running at '' @ server_url),
                 Print ''To start the server in HTTP mode, run:'',
                 Print ''  python mcp/mcp_server.py --transport streamable-http --port 8000'']
              else
                [Print (''HTTP client error: '' @ str_exn e),
                 Print (''This might be because no server is running at '' @ server_url),
                 Print ''To start the server in HTTP mode, run:'',
                 Print ''  python mcp/mcp_server.py --transport streamable-http --port 8000''])
       \<and> connects_of (fst (demo_http_client srv server_url)) = [server_url]"
proof (intro conjI)
  show "snd (demo_http_client srv server_url) = Inr ()"
    using assms by (simp add: snd_demo_http_client)
  show "fst (demo_http_client srv server_url) =
           [Print (CHR 0x0A # ''=== MCP HTTP Client Demo ===''),
            Print (''Attempting to connect to: '' @ server_url)]
           @ fst (http_try_body srv server_url)
           @ (if is_ConnectionError e then
                [Print (''HTTP connection failed: '' @ str_exn e),
                 Print (''Make sure an MCP server is running at '' @ server_url),
                 Print ''To start the server in HTTP mode, run:'',
                 Print ''  python mcp/mcp_server.py --transport streamable-http --port 8000'']
              else
                [Print (''HTTP client error: '' @ str_exn e),
                 Print (''This might be because no server is running at '' @ server_url),
                 Print ''To start the server in HTTP mode, run:'',
                 Print ''  python mcp/mcp_server.py --transport streamable-http --port 8000''])"
    using assms by (simp add: fst_demo_http_client on_ConnectionError_eq on_Exception_eq)
  show "connects_of (fst (demo_http_client srv server_url)) = [server_url]"
    by (simp add: fst_demo_http_client connects_of_http_try_body
          on_ConnectionError_eq on_Exception_eq split: sum.splits)
qed

theorem http_errors_terminal_witness:
  "snd (http_try_body refusing_server ''http://localhost:8000/mcp'')
     = Inl (ConnectionError ''All connection attempts failed'')
   \<and> is_Exception (ConnectionError ''All connection attempts failed'')
   \<and> demo_http_client refusing_server ''http://localhost:8000/mcp'' =
       ([Print (CHR 0x0A # ''=== MCP HTTP Client Demo ===''),
         Print ''Attempting to connect to: http://localhost:8000/mcp'',
         StreamableHttpClient ''http://localhost:8000/mcp'',
         Print ''HTTP connection failed: All connection attempts failed'',
         Print ''Make sure an MCP server is running at http://localhost:8000/mcp'',
         Print ''To start the server in HTTP mode, run:'',
         Print ''  python mcp/mcp_server.py --transport streamable-http --port 8000''],
        Inr ())
   \<and> connects_of (fst (demo_http_client refusing_server ''http://localhost:8000/mcp''))
       = [''http://localhost:8000/mcp'']"
proof -
  have b: "http_try_body refusing_server ''http://localhost:8000/mcp'' =
             ([StreamableHttpClient ''http://localhost:8000/mcp''],
              Inl (ConnectionError ''All connection attempts failed''))"
    by (simp add: http_try_body_def refusing_server_def async_with_def perform_def)
  then have h1: "snd (http_try_body refusing_server ''http://localhost:8000/mcp'')
     = Inl (ConnectionError ''All connection attempts failed'')" by simp
  have h2: "is_Exception (ConnectionError ''All connection attempts failed'')" by simp
  from http_errors_terminal[OF h1 h2] h1 h2 b show ?thesis
    by (simp add: prod_eq_iff)
qed

text \<open>
  C8. The sampling callback is a constant function: any two requests get the same
  reply, and the reply has the role "assistant", a text content with the fixed text,
  and the stop reason "endTurn", whatever the request holds.
\<close>

theorem sampling_reply_constant:
  "handle_sampling_message m1 = handle_sampling_message m2
   \<and> role (handle_sampling_message m1) = ''assistant''
   \<and> tc_type (content (handle_sampling_message m1)) = ''text''
   \<and> tc_text (content (handle_sampling_message m1)) = ''Hello from MCP client!''
   \<and> stopReason (handle_sampling_message m1) = ''endTurn''"
  by (simp add: handle_sampling_message_def)

text \<open>
  C9, as the code has it. In the stdio flow with the session established and list-only
  not set, a non-empty explicit tool name is called under that exact name whenever
  building the arguments does not raise; in particular when the tool listing failed,
  returned no tool, or returned tools none of which has that name, and then the call
  is made with the empty argument mapping.
\<close>

theorem named_tool_called:
  assumes "established srv"
      and "catchable (on_list_prompts srv)"
      and "catchable (on_list_resources srv)"
      and "catchable (on_list_tools srv)"
      and "n \<noteq> []"
  shows "(\<forall>a. build_tool_args (listed (on_list_tools srv)) n = Inr a \<longrightarrow>
            calls_of (fst (demo_stdio_client srv host port docker_image (Some n) False)) = [(n, a)])
       \<and> ((\<exists>e. on_list_tools srv = Inl e) \<or> on_list_tools srv = Inr []
            \<or> (\<exists>ts. on_list_tools srv = Inr ts \<and> n \<notin> set (map t_name ts)) \<longrightarrow>
            calls_of (fst (demo_stdio_client srv host port docker_image (Some n) False)) = [(n, [])])"
proof -
  have sel: "select_tool_name (Some n) tools = Some n" for tools
    using assms(5) by (simp add: select_tool_name_def)
  have calls: "calls_of (fst (demo_stdio_client srv host port docker_image (Some n) False)) =
                 (case build_tool_args (listed (on_list_tools srv)) n of
                    Inl e \<Rightarrow> [] | Inr a \<Rightarrow> [(n, a)])"
    unfolding calls_of_demo_stdio_client[OF assms(1-4)] sel using assms(5) by simp
  have empty: "build_tool_args (listed (on_list_tools srv)) n = Inr []"
    if "(\<exists>e. on_list_tools srv = Inl e) \<or> on_list_tools srv = Inr []
        \<or> (\<exists>ts. on_list_tools srv = Inr ts \<and> n \<notin> set (map t_name ts))"
  proof -
    from that consider e where "on_list_tools srv = Inl e" | "on_list_tools srv = Inr []"
      | ts where "on_list_tools srv = Inr ts" "n \<notin> set (map t_name ts)" by blast
    then show ?thesis
    proof cases
      case 1
      then show ?thesis by (simp add: build_tool_args_def)
    next
      case 2
      then show ?thesis by (simp add: build_tool_args_def)
    next
      case 3
      from 3(2) have "find (\<lambda>t. t_name t = n) ts = None"
        by (auto simp: find_None_iff)
      with 3(1) show ?thesis by (simp add: build_tool_args_not_listed)
    qed
  qed
  show ?thesis using calls empty by auto
qed

theorem named_tool_called_witness:
  "established failing_tools_server
   \<and> catchable (on_list_prompts failing_tools_server)
   \<and> catchable (on_list_resources failing_tools_server)
   \<and> catchable (on_list_tools failing_tools_server)
   \<and> ''a'' \<noteq> []
   \<and> build_tool_args (listed (on_list_tools failing_tools_server)) ''a'' = Inr []
   \<and> (\<exists>e. on_list_tools failing_tools_server = Inl e)
   \<and> calls_of (fst (demo_stdio_client failing_tools_server ''host.docker.internal'' 8811
                       ''alpine/socat'' (Some ''a'') False)) = [(''a'', [])]"
proof -
  have h1: "established failing_tools_server"
    by (simp add: failing_tools_server_def demo_server_def established_def)
  have h2: "catchable (on_list_prompts failing_tools_server)"
    by (simp add: failing_tools_server_def demo_server_def)
  have h3: "catchable (on_list_resources failing_tools_server)"
    by (simp add: failing_tools_server_def demo_server_def)
  have h4: "catchable (on_list_tools failing_tools_server)"
    by (simp add: failing_tools_server_def demo_server_def)
  have h5: "''a'' \<noteq> []" by simp
  have h6: "\<exists>e. on_list_tools failing_tools_server = Inl e"
    by (simp add: failing_tools_server_def demo_server_def)
  have h7: "build_tool_args (listed (on_list_tools failing_tools_server)) ''a'' = Inr []"
    by (simp add: failing_tools_server_def demo_server_def build_tool_args_def)
  show ?thesis
    using h1 h2 h3 h4 h6 h7
      named_tool_called[OF h1 h2 h3 h4 h5, of "''host.docker.internal''" 8811 "''alpine/socat''"]
    by simp
qed

text \<open>
  C9 as stated fails twice: the empty string given as the tool name is not called
  (here with a failed tool listing), and a named tool that is listed with a boolean
  property schema is not called either, because building its arguments raises.
\<close>

theorem named_tool_called_counterexample:
  "calls_of (fst (demo_stdio_client failing_tools_server ''host.docker.internal'' 8811
                    ''alpine/socat'' (Some []) False)) = []
   \<and> calls_of (fst (demo_stdio_client boolean_schema_server ''host.docker.internal'' 8811
                       ''alpine/socat'' (Some ''a'') False)) = []"
proof -
  have f: "established failing_tools_server" "catchable (on_list_prompts failing_tools_server)"
    "catchable (on_list_resources failing_tools_server)"
    "catchable (on_list_tools failing_tools_server)"
    by (simp_all add: failing_tools_server_def demo_server_def established_def)
  have b: "established boolean_schema_server" "catchable (on_list_prompts boolean_schema_server)"
    "catchable (on_list_resources boolean_schema_server)"
    "catchable (on_list_tools boolean_schema_server)"
    by (simp_all add: boolean_schema_server_def demo_server_def established_def)
  have 1: "calls_of (fst (demo_stdio_client failing_tools_server ''host.docker.internal'' 8811
                    ''alpine/socat'' (Some []) False)) = []"
    unfolding calls_of_demo_stdio_client[OF f]
    by (simp add: failing_tools_server_def demo_server_def select_tool_name_def)
  have 2: "calls_of (fst (demo_stdio_client boolean_schema_server ''host.docker.internal'' 8811
                       ''alpine/socat'' (Some ''a'') False)) = []"
    unfolding calls_of_demo_stdio_client[OF b]
    by (simp add: boolean_schema_server_def demo_server_def select_tool_name_def
          build_tool_args_def attribute_error_def)
  from 1 2 show ?thesis by simp
qed

text \<open>
  C10. In the stdio flow, when the selected tool has no input schema, or a schema
  without a "properties" key, the tool is still called, and the argument mapping of
  the call is the empty mapping.
\<close>

theorem tool_without_properties_called_empty:
  assumes "established srv"
      and "catchable (on_list_prompts srv)"
      and "catchable (on_list_resources srv)"
      and "on_list_tools srv = Inr ts"
      and "select_tool_name tool_name (Some ts) = Some n"
      and "n \<noteq> []"
      and "find (\<lambda>t. t_name t = n) ts = Some selected"
      and "t_inputSchema selected = None
           \<or> (\<exists>schema. t_inputSchema selected = Some schema
                        \<and> map_of schema ''properties'' = None)"
  shows "calls_of (fst (demo_stdio_client srv host port docker_image tool_name False)) = [(n, [])]"
proof -
  have c: "catchable (on_list_tools srv)" and l: "listed (on_list_tools srv) = Some ts"
    using assms(4) by simp_all
  show ?thesis
    unfolding calls_of_demo_stdio_client[OF assms(1-3) c] l
    using assms(5,6) build_tool_args_no_schema[OF assms(7,8)] by simp
qed

theorem tool_without_properties_called_empty_witness:
  "established demo_server
   \<and> catchable (on_list_prompts demo_server)
   \<and> catchable (on_list_resources demo_server)
   \<and> on_list_tools demo_server = Inr tools_ab
   \<and> select_tool_name (Some ''b'') (Some tools_ab) = Some ''b''
   \<and> ''b'' \<noteq> []
   \<and> find (\<lambda>t. t_name t = ''b'') tools_ab = Some tool_b
   \<and> t_inputSchema tool_b = None
   \<and> calls_of (fst (demo_stdio_client demo_server ''host.docker.internal'' 8811 ''alpine/socat''
                       (Some ''b'') False)) = [(''b'', [])]"
proof -
  have h1: "established demo_server" by (simp add: demo_server_def established_def)
  have h2: "catchable (on_list_prompts demo_server)" by (simp add: demo_server_def)
  have h3: "catchable (on_list_resources demo_server)" by (simp add: demo_server_def)
  have h4: "on_list_tools demo_server = Inr tools_ab" by (simp add: demo_server_def)
  have h5: "select_tool_name (Some ''b'') (Some tools_ab) = Some ''b''"
    by (simp add: select_tool_name_def)
  have h6: "''b'' \<noteq> []" by simp
  have h7: "find (\<lambda>t. t_name t = ''b'') tools_ab = Some tool_b"
    by (simp add: tools_ab_def tool_a_def tool_b_def)
  have h8: "t_inputSchema tool_b = None" by (simp add: tool_b_def)
  from h8 have h8': "t_inputSchema tool_b = None
           \<or> (\<exists>schema. t_inputSchema tool_b = Some schema
                        \<and> map_of schema ''properties'' = None)" by simp
  show ?thesis
    using h1 h2 h3 h4 h5 h7 h8
      tool_without_properties_called_empty[OF h1 h2 h3 h4 h5 h6 h7 h8',
        of "''host.docker.internal''" 8811 "''alpine/socat''"]
    by simp
qed

end
